theory Spec2Isabelle
  imports Main "HOL-Library.List_Lexorder" "HOL-Library.Char_ord"
begin

section \<open>PlantSpace: real-time relay, message controller and rate limiter\<close>

text \<open>
  A shallow embedding of three parts of the PlantSpace backend:
  \<^item> \<^verbatim>\<open>services/socketService.ts\<close> (\<^verbatim>\<open>setupSocketHandlers\<close>): the Socket.IO relay;
  \<^item> \<^verbatim>\<open>controllers/messageController.ts\<close>: \<^verbatim>\<open>getMessages\<close>, \<^verbatim>\<open>sendMessage\<close>,
    \<^verbatim>\<open>deleteMessage\<close>;
  \<^item> \<^verbatim>\<open>middleware/auth.ts\<close> (\<^verbatim>\<open>createRateLimit\<close>): the per-IP rate limiter.

  Identities are strings (UUIDs written in ASCII), times are integers (milliseconds, as
  \<^verbatim>\<open>Date.now()\<close> returns them). The store (Supabase) and the transport (Socket.IO) are
  outside the repository; the little of their behaviour that the handlers rely on is
  written out in the sections on the store and on rooms.
\<close>

subsection \<open>Canonical conversation key\<close>

text \<open>
  \<^verbatim>\<open>[socket.userId, data.otherUserId].sort().join(':')\<close>.
  \<^verbatim>\<open>Array.prototype.sort\<close> without a comparator orders strings by their code units,
  a shorter prefix first, and is stable: it is \<^const>\<open>sort\<close> on the lexicographic order of
  \<^typ>\<open>string\<close>. \<^verbatim>\<open>join\<close> puts the separator between neighbours.
\<close>

fun js_join :: "string \<Rightarrow> string list \<Rightarrow> string" where
  "js_join sep [] = []"
| "js_join sep [x] = x"
| "js_join sep (x # y # ys) = x @ sep @ js_join sep (y # ys)"

definition conversationId :: "string \<Rightarrow> string \<Rightarrow> string" where
  "conversationId userId otherUserId = js_join '':'' (sort [userId, otherUserId])"

text \<open>The room names: \<^verbatim>\<open>`conversation:${conversationId}`\<close> and \<^verbatim>\<open>`user:${id}`\<close>.\<close>

definition conversation_room :: "string \<Rightarrow> string" where
  "conversation_room cid = ''conversation:'' @ cid"

definition user_room :: "string \<Rightarrow> string" where
  "user_room uid = ''user:'' @ uid"

text \<open>The room a connection of \<open>userId\<close> enters on \<^verbatim>\<open>join_conversation\<close> (line 46-47).\<close>

definition join_conversation_room :: "string \<Rightarrow> string \<Rightarrow> string" where
  "join_conversation_room userId otherUserId =
     conversation_room (conversationId userId otherUserId)"

text \<open>The room \<^verbatim>\<open>new_message\<close> is broadcast to on \<^verbatim>\<open>send_message\<close> (line 75-76).\<close>

definition send_message_room :: "string \<Rightarrow> string \<Rightarrow> string" where
  "send_message_room userId receiverId =
     conversation_room (conversationId userId receiverId)"

subsection \<open>Rate limiter\<close>

text \<open>
  \<^verbatim>\<open>createRateLimit(windowMs, maxRequests)\<close> closes over \<^verbatim>\<open>requests = new Map()\<close>, from the
  requesting address to the array of the times of its recorded requests. The middleware
  is a function of that map, the request's key and \<^verbatim>\<open>Date.now()\<close>; it returns what it did
  with the request and the map it leaves behind.
\<close>

type_synonym 'k requests = "'k \<rightharpoonup> int list"

datatype limit_outcome =
    Next \<comment> \<open>\<^verbatim>\<open>next()\<close>\<close>
  | Status429 int \<comment> \<open>\<^verbatim>\<open>res.status(429).json({..., retryAfter})\<close>\<close>

text \<open>
  The loop "Clean old requests": every entry keeps the times newer than \<open>windowStart\<close>
  and is deleted when none is left.
\<close>

definition clean_old :: "int \<Rightarrow> 'k requests \<Rightarrow> 'k requests" where
  "clean_old windowStart requests =
     (\<lambda>ip. case requests ip of
             None \<Rightarrow> None
           | Some timestamps \<Rightarrow>
               (let kept = filter (\<lambda>time. time > windowStart) timestamps
                in if length kept = 0 then None else Some kept))"

text \<open>\<^verbatim>\<open>requests.get(key) || []\<close>.\<close>

definition recorded :: "'k requests \<Rightarrow> 'k \<Rightarrow> int list" where
  "recorded requests key = (case requests key of Some timestamps \<Rightarrow> timestamps | None \<Rightarrow> [])"

text \<open>\<^verbatim>\<open>Math.ceil(windowMs / 1000)\<close> on an integer number of milliseconds.\<close>

definition retryAfter :: "int \<Rightarrow> int" where
  "retryAfter windowMs = - ((- windowMs) div 1000)"

definition createRateLimit ::
  "int \<Rightarrow> int \<Rightarrow> 'k requests \<Rightarrow> 'k \<Rightarrow> int \<Rightarrow> limit_outcome \<times> 'k requests" where
  "createRateLimit windowMs maxRequests requests key now =
     (let windowStart = now - windowMs;
          requests1 = clean_old windowStart requests;
          userRequests = recorded requests1 key
      in if int (length userRequests) \<ge> maxRequests
         then (Status429 (retryAfter windowMs), requests1)
         else (Next, requests1(key \<mapsto> userRequests @ [now])))"

text \<open>A stream of requests, each a key and the time it arrives, through one limiter.\<close>

fun serve ::
  "int \<Rightarrow> int \<Rightarrow> 'k requests \<Rightarrow> ('k \<times> int) list \<Rightarrow> limit_outcome list \<times> 'k requests" where
  "serve windowMs maxRequests requests [] = ([], requests)"
| "serve windowMs maxRequests requests ((key, now) # rest) =
     (let (out, requests1) = createRateLimit windowMs maxRequests requests key now;
          (outs, requests2) = serve windowMs maxRequests requests1 rest
      in (out # outs, requests2))"

text \<open>
  The reading of the limiter as a sliding window over the admitted requests only: a
  request is admitted when fewer than \<open>maxRequests\<close> of the requests admitted before it,
  from the same key, are newer than \<open>now - windowMs\<close>. \<open>admitted\<close> holds the admitted
  requests so far, oldest first.
\<close>

definition recent_admitted :: "int \<Rightarrow> ('k \<times> int) list \<Rightarrow> 'k \<Rightarrow> int \<Rightarrow> int list" where
  "recent_admitted windowMs admitted key now =
     map snd (filter (\<lambda>(k, t). k = key \<and> t > now - windowMs) admitted)"

fun window_spec ::
  "int \<Rightarrow> int \<Rightarrow> ('k \<times> int) list \<Rightarrow> ('k \<times> int) list \<Rightarrow> limit_outcome list" where
  "window_spec windowMs maxRequests admitted [] = []"
| "window_spec windowMs maxRequests admitted ((key, now) # rest) =
     (if int (length (recent_admitted windowMs admitted key now)) \<ge> maxRequests
      then Status429 (retryAfter windowMs) # window_spec windowMs maxRequests admitted rest
      else Next # window_spec windowMs maxRequests (admitted @ [(key, now)]) rest)"

subsection \<open>The store\<close>

text \<open>
  The tables the handlers touch, after the \<^verbatim>\<open>CREATE TABLE\<close> statements of the repository.
  A user row carries the profile columns the handlers select; a message row is the
  whole \<^verbatim>\<open>messages\<close> row. \<^verbatim>\<open>read_at\<close> is \<open>None\<close> for SQL \<^verbatim>\<open>NULL\<close>. The column
  \<^verbatim>\<open>id\<close> is \<open>user_id\<close> and \<open>message_id\<close> here, the column \<^verbatim>\<open>text\<close> is
  \<open>message_text\<close>.
\<close>

record user =
  user_id :: string
  username :: string
  display_name :: string
  avatar_url :: "string option"
  is_verified :: bool

record message =
  message_id :: string
  sender_id :: string
  receiver_id :: string
  message_text :: string
  image_url :: "string option"
  created_at :: int
  read_at :: "int option"

record database =
  users :: "user list"
  messages :: "message list"

text \<open>
  The repository holds three versions of the \<^verbatim>\<open>messages\<close> table. All three have the
  primary key and the two foreign keys to \<^verbatim>\<open>users\<close>. Only the stand-alone schema file
  adds \<^verbatim>\<open>CHECK (length(text) >= 1 AND length(text) <= 1000)\<close> and
  \<^verbatim>\<open>CHECK (sender_id != receiver_id)\<close>; \<^verbatim>\<open>DATABASE_SCHEMA\<close> in
  \<^verbatim>\<open>services/supabase.ts\<close> (the module both handlers import the client from, and the
  schema the README says to run) and \<^verbatim>\<open>setup-database.sql\<close> have neither.
\<close>

record schema =
  check_text_length :: bool
  check_sender_receiver :: bool

definition services_supabase_schema :: schema where
  "services_supabase_schema = \<lparr>check_text_length = False, check_sender_receiver = False\<rparr>"

definition standalone_schema :: schema where
  "standalone_schema = \<lparr>check_text_length = True, check_sender_receiver = True\<rparr>"

text \<open>
  What awaiting a query gives: the promise resolves to \<^verbatim>\<open>{ data, error }\<close>, of which one
  is \<^verbatim>\<open>null\<close>, or it rejects and the \<^verbatim>\<open>await\<close> throws. A query can fail for reasons
  outside the tables (the network, the service): the \<open>fault\<close> argument of each query says
  whether this call does.
\<close>

record 'a reply =
  data :: "'a option"
  error :: "string option"

datatype 'a awaited = Resolved "'a reply" | Throws

datatype fault = Fault_error | Fault_throw

definition ok :: "'a \<Rightarrow> 'a reply" where
  "ok x = \<lparr>data = Some x, error = None\<rparr>"

definition failed :: "string \<Rightarrow> 'a reply" where
  "failed e = \<lparr>data = None, error = Some e\<rparr>"

text \<open>\<^verbatim>\<open>.single()\<close>: exactly one row, or an error.\<close>

definition single :: "'a list \<Rightarrow> 'a reply" where
  "single rows = (case rows of [r] \<Rightarrow> ok r | _ \<Rightarrow> failed ''PGRST116'')"

definition answer :: "fault option \<Rightarrow> 'a reply \<Rightarrow> 'a awaited" where
  "answer f r =
     (case f of None \<Rightarrow> Resolved r
              | Some Fault_error \<Rightarrow> Resolved (failed ''store unavailable'')
              | Some Fault_throw \<Rightarrow> Throws)"

text \<open>\<^verbatim>\<open>from('users').select('id').eq('id', uid).single()\<close>\<close>

definition select_user :: "fault option \<Rightarrow> database \<Rightarrow> string \<Rightarrow> user awaited" where
  "select_user f db uid = answer f (single (filter (\<lambda>u. user_id u = uid) (users db)))"

definition find_user :: "database \<Rightarrow> string \<Rightarrow> user option" where
  "find_user db uid = find (\<lambda>u. user_id u = uid) (users db)"

text \<open>
  The three select lists of the handlers. Each returns the row (\<^verbatim>\<open>*\<close>) and embeds what
  its foreign keys point to, with the columns it names.

  The HTTP \<^verbatim>\<open>sendMessage\<close>:
  \<^verbatim>\<open>*, sender:sender_id (id, username, display_name, avatar_url, is_verified),
  receiver:receiver_id (id, username, display_name, avatar_url, is_verified)\<close>.
\<close>

record message_view =
  row :: message
  sender :: "user option"
  receiver :: "user option"

definition view_of :: "database \<Rightarrow> message \<Rightarrow> message_view" where
  "view_of db m =
     \<lparr>row = m, sender = find_user db (sender_id m), receiver = find_user db (receiver_id m)\<rparr>"

text \<open>
  \<^verbatim>\<open>getMessages\<close>:
  \<^verbatim>\<open>*, sender:sender_id (id, username, display_name, avatar_url, is_verified)\<close>, no receiver.
\<close>

record listed_message =
  listed_row :: message
  listed_sender :: "user option"

definition listed_of :: "database \<Rightarrow> message \<Rightarrow> listed_message" where
  "listed_of db m = \<lparr>listed_row = m, listed_sender = find_user db (sender_id m)\<rparr>"

text \<open>
  The relay's \<^verbatim>\<open>send_message\<close>:
  \<^verbatim>\<open>*, sender:sender_id (id, username, display_name, avatar_url)\<close>: no receiver, and the
  sender without \<^verbatim>\<open>is_verified\<close>.
\<close>

record profile =
  profile_id :: string
  profile_username :: string
  profile_display_name :: string
  profile_avatar_url :: "string option"

definition profile_of :: "user \<Rightarrow> profile" where
  "profile_of u =
     \<lparr>profile_id = user_id u, profile_username = username u,
      profile_display_name = display_name u, profile_avatar_url = avatar_url u\<rparr>"

record sent_message =
  sent_row :: message
  sent_sender :: "profile option"

definition sent_of :: "database \<Rightarrow> message \<Rightarrow> sent_message" where
  "sent_of db m =
     \<lparr>sent_row = m, sent_sender = map_option profile_of (find_user db (sender_id m))\<rparr>"

text \<open>
  \<^verbatim>\<open>from('messages').insert({sender_id, receiver_id, text, image_url}).select(...).single()\<close>.
  The store draws the id (\<^verbatim>\<open>uuid_generate_v4()\<close>) and the creation time (\<^verbatim>\<open>NOW()\<close>):
  they are arguments here. The row is refused when it breaks a constraint of the table.
  The reply is the stored row; the caller's select list (above) says what is embedded in it.
\<close>

record new_message =
  new_sender_id :: string
  new_receiver_id :: string
  new_text :: string
  new_image_url :: "string option"

definition constraint_violated :: "schema \<Rightarrow> database \<Rightarrow> string \<Rightarrow> new_message \<Rightarrow> bool" where
  "constraint_violated sch db fresh_id n \<longleftrightarrow>
     fresh_id \<in> message_id ` set (messages db)
     \<or> find_user db (new_sender_id n) = None
     \<or> find_user db (new_receiver_id n) = None
     \<or> (check_text_length sch \<and> (length (new_text n) < 1 \<or> length (new_text n) > 1000))
     \<or> (check_sender_receiver sch \<and> new_sender_id n = new_receiver_id n)"

definition stored_row :: "string \<Rightarrow> int \<Rightarrow> new_message \<Rightarrow> message" where
  "stored_row fresh_id now n =
     \<lparr>message_id = fresh_id, sender_id = new_sender_id n, receiver_id = new_receiver_id n,
      message_text = new_text n, image_url = new_image_url n, created_at = now,
      read_at = None\<rparr>"

definition insert_message ::
  "schema \<Rightarrow> fault option \<Rightarrow> string \<Rightarrow> int \<Rightarrow> database \<Rightarrow> new_message
     \<Rightarrow> message awaited \<times> database" where
  "insert_message sch f fresh_id now db n =
     (if f \<noteq> None then (answer f (failed []), db)
      else if constraint_violated sch db fresh_id n
      then (Resolved (failed ''constraint violation''), db)
      else
        (let m = stored_row fresh_id now n
         in (Resolved (ok m), db\<lparr>messages := messages db @ [m]\<rparr>)))"

text \<open>\<^verbatim>\<open>value || null\<close> and \<^verbatim>\<open>!value\<close> on an optional string: the empty string is falsy.\<close>

definition or_null :: "string option \<Rightarrow> string option" where
  "or_null v = (case v of None \<Rightarrow> None | Some s \<Rightarrow> if s = [] then None else Some s)"

definition falsy :: "string option \<Rightarrow> bool" where
  "falsy v \<longleftrightarrow> or_null v = None"

subsection \<open>The relay: connections, rooms and emissions\<close>

text \<open>
  The part of Socket.IO the handlers use. A connection (socket) has an id, the
  \<^verbatim>\<open>userId\<close> the middleware attached, and the set of rooms it has joined. An emission
  names its target the way the code does: \<^verbatim>\<open>socket.emit\<close> reaches the socket itself,
  \<^verbatim>\<open>io.to(room).emit\<close> every socket in the room, \<^verbatim>\<open>socket.to(room).emit\<close> every
  socket in the room but the emitting one.
\<close>

type_synonym sid = nat

record connection =
  userId :: string
  rooms :: "string set"

record relay =
  sockets :: "sid \<rightharpoonup> connection"
  store :: database

datatype call_type = Voice | Video

datatype outbound =
    Message_error string
  | New_message "sent_message option"
  | Message_notification string "sent_message option"
  | User_typing string bool
  | Incoming_call string string call_type
  | Call_answered string
  | Call_rejected
  | Call_ended
  | Ice_candidate_out string

datatype target =
    To_socket sid
  | To_room string
  | To_room_except string sid

type_synonym emission = "target \<times> outbound"

definition in_room :: "relay \<Rightarrow> sid \<Rightarrow> string \<Rightarrow> bool" where
  "in_room st x r = (case sockets st x of None \<Rightarrow> False | Some c \<Rightarrow> r \<in> rooms c)"

fun reaches :: "relay \<Rightarrow> target \<Rightarrow> sid \<Rightarrow> bool" where
  "reaches st (To_socket y) x = (x = y \<and> sockets st x \<noteq> None)"
| "reaches st (To_room r) x = in_room st x r"
| "reaches st (To_room_except r y) x = (x \<noteq> y \<and> in_room st x r)"

text \<open>The events a connection \<open>x\<close> receives out of a list of emissions.\<close>

definition delivered :: "relay \<Rightarrow> emission list \<Rightarrow> sid \<Rightarrow> outbound list" where
  "delivered st ems x = map snd (filter (\<lambda>(t, ev). reaches st t x) ems)"

subsection \<open>The relay: authentication middleware and connection\<close>

text \<open>
  \<^verbatim>\<open>io.use(async (socket, next) => ...)\<close>. \<^verbatim>\<open>jwt.verify\<close> is a parameter: \<open>verify token\<close>
  is \<open>None\<close> when it throws and the \<^verbatim>\<open>userId\<close> of the decoded payload otherwise. The
  result is the argument of \<^verbatim>\<open>next\<close>: the error, or nothing, with \<^verbatim>\<open>socket.userId\<close> set.
\<close>

datatype auth_error = Authentication_error

definition auth_middleware ::
  "(string \<Rightarrow> string option) \<Rightarrow> database \<Rightarrow> fault option \<Rightarrow> string option
     \<Rightarrow> auth_error + string" where
  "auth_middleware verify db f token =
     (if falsy token then Inl Authentication_error
      else case verify (the token) of
             None \<Rightarrow> Inl Authentication_error
           | Some decoded_userId \<Rightarrow>
               (case select_user f db decoded_userId of
                  Throws \<Rightarrow> Inl Authentication_error
                | Resolved r \<Rightarrow>
                    if error r \<noteq> None \<or> data r = None then Inl Authentication_error
                    else Inr decoded_userId))"

text \<open>
  \<^verbatim>\<open>io.on('connection', ...)\<close>, which Socket.IO runs only for a socket every middleware
  passed: the socket joins its personal room, and its handlers are registered.
\<close>

definition on_connection :: "sid \<Rightarrow> string \<Rightarrow> relay \<Rightarrow> relay" where
  "on_connection x uid st =
     st\<lparr>sockets := (sockets st)(x \<mapsto> \<lparr>userId = uid, rooms = {user_room uid}\<rparr>)\<rparr>"

definition connect ::
  "(string \<Rightarrow> string option) \<Rightarrow> sid \<Rightarrow> string option \<Rightarrow> fault option \<Rightarrow> relay
     \<Rightarrow> auth_error + relay" where
  "connect verify x token f st =
     (case auth_middleware verify (store st) f token of
        Inl e \<Rightarrow> Inl e
      | Inr uid \<Rightarrow> Inr (on_connection x uid st))"

subsection \<open>The relay: event handlers\<close>

text \<open>
  Each handler is a function of the socket (its id \<open>x\<close> and its \<^verbatim>\<open>userId\<close>) and of the
  payload, and returns what it emits; \<^verbatim>\<open>join_conversation\<close> and \<^verbatim>\<open>send_message\<close> also
  change the relay.
\<close>

definition join_conversation :: "sid \<Rightarrow> string \<Rightarrow> relay \<Rightarrow> relay" where
  "join_conversation x otherUserId st =
     (case sockets st x of
        None \<Rightarrow> st
      | Some c \<Rightarrow>
          st\<lparr>sockets := (sockets st)
               (x \<mapsto> c\<lparr>rooms := insert (join_conversation_room (userId c) otherUserId) (rooms c)\<rparr>)\<rparr>)"

text \<open>
  The payload \<^verbatim>\<open>{ receiverId, text, imageUrl? }\<close>; its \<^verbatim>\<open>text\<close> is the field
  \<open>text_field\<close> here.
\<close>

record send_message_data =
  receiverId :: string
  text_field :: string
  imageUrl :: "string option"

definition send_message ::
  "schema \<Rightarrow> fault option \<Rightarrow> string \<Rightarrow> int \<Rightarrow> sid \<Rightarrow> string \<Rightarrow> send_message_data
     \<Rightarrow> database \<Rightarrow> emission list \<times> database" where
  "send_message sch f fresh_id now x socket_userId d db =
     (case insert_message sch f fresh_id now db
             \<lparr>new_sender_id = socket_userId, new_receiver_id = receiverId d,
              new_text = text_field d, new_image_url = or_null (imageUrl d)\<rparr> of
        (Throws, db') \<Rightarrow> ([(To_socket x, Message_error ''Failed to send message'')], db')
      | (Resolved r, db') \<Rightarrow>
          if error r \<noteq> None
          then ([(To_socket x, Message_error ''Failed to send message'')], db')
          else
            (let message = map_option (sent_of db) (data r)
             in ([(To_room (send_message_room socket_userId (receiverId d)), New_message message),
                  (To_room (user_room (receiverId d)),
                     Message_notification socket_userId message)], db')))"

definition typing_start :: "sid \<Rightarrow> string \<Rightarrow> string \<Rightarrow> emission list" where
  "typing_start x socket_userId data_receiverId =
     [(To_room_except (user_room data_receiverId) x, User_typing socket_userId True)]"

definition typing_stop :: "sid \<Rightarrow> string \<Rightarrow> string \<Rightarrow> emission list" where
  "typing_stop x socket_userId data_receiverId =
     [(To_room_except (user_room data_receiverId) x, User_typing socket_userId False)]"

definition call_user :: "sid \<Rightarrow> string \<Rightarrow> string \<Rightarrow> string \<Rightarrow> call_type \<Rightarrow> emission list" where
  "call_user x socket_userId calleeId offer callType =
     [(To_room_except (user_room calleeId) x, Incoming_call socket_userId offer callType)]"

definition answer_call :: "sid \<Rightarrow> string \<Rightarrow> string \<Rightarrow> emission list" where
  "answer_call x callerId answer_payload =
     [(To_room_except (user_room callerId) x, Call_answered answer_payload)]"

definition reject_call :: "sid \<Rightarrow> string \<Rightarrow> emission list" where
  "reject_call x callerId = [(To_room_except (user_room callerId) x, Call_rejected)]"

definition end_call :: "sid \<Rightarrow> string \<Rightarrow> emission list" where
  "end_call x otherUserId = [(To_room_except (user_room otherUserId) x, Call_ended)]"

definition ice_candidate :: "sid \<Rightarrow> string \<Rightarrow> string \<Rightarrow> emission list" where
  "ice_candidate x otherUserId candidate =
     [(To_room_except (user_room otherUserId) x, Ice_candidate_out candidate)]"

text \<open>On \<^verbatim>\<open>disconnect\<close> Socket.IO takes the socket out of every room; the handler only logs.\<close>

definition disconnect :: "sid \<Rightarrow> relay \<Rightarrow> relay" where
  "disconnect x st = st\<lparr>sockets := (sockets st)(x := None)\<rparr>"

subsection \<open>The relay as a transition system\<close>

text \<open>
  What a client can make happen on a socket id: a connection attempt, then the events of
  the vocabulary. An event on an id that is not a connected socket finds no handler (the
  handlers are registered in the connection callback), and a connection attempt on an id
  already in use does not occur (Socket.IO draws a fresh id for each connection).
\<close>

datatype inbound =
    Handshake "string option" "fault option"
  | Join_conversation string
  | Send_message send_message_data "fault option" string int
  | Typing_start string
  | Typing_stop string
  | Call_user string string call_type
  | Answer_call string string
  | Reject_call string
  | End_call string
  | Ice_candidate string string
  | Disconnect

fun handle :: "schema \<Rightarrow> sid \<Rightarrow> connection \<Rightarrow> inbound \<Rightarrow> relay \<Rightarrow> emission list \<times> relay" where
  "handle sch x c (Handshake token f) st = ([], st)"
| "handle sch x c (Join_conversation otherUserId) st = ([], join_conversation x otherUserId st)"
| "handle sch x c (Send_message d f fresh_id now) st =
     (let (ems, db') = send_message sch f fresh_id now x (userId c) d (store st)
      in (ems, st\<lparr>store := db'\<rparr>))"
| "handle sch x c (Typing_start r) st = (typing_start x (userId c) r, st)"
| "handle sch x c (Typing_stop r) st = (typing_stop x (userId c) r, st)"
| "handle sch x c (Call_user calleeId offer callType) st =
     (call_user x (userId c) calleeId offer callType, st)"
| "handle sch x c (Answer_call callerId a) st = (answer_call x callerId a, st)"
| "handle sch x c (Reject_call callerId) st = (reject_call x callerId, st)"
| "handle sch x c (End_call otherUserId) st = (end_call x otherUserId, st)"
| "handle sch x c (Ice_candidate otherUserId cand) st = (ice_candidate x otherUserId cand, st)"
| "handle sch x c Disconnect st = ([], disconnect x st)"

definition step ::
  "(string \<Rightarrow> string option) \<Rightarrow> schema \<Rightarrow> sid \<Rightarrow> inbound \<Rightarrow> relay \<Rightarrow> emission list \<times> relay" where
  "step verify sch x e st =
     (case sockets st x of
        Some c \<Rightarrow> handle sch x c e st
      | None \<Rightarrow>
          (case e of
             Handshake token f \<Rightarrow>
               (case connect verify x token f st of Inl err \<Rightarrow> ([], st) | Inr st' \<Rightarrow> ([], st'))
           | _ \<Rightarrow> ([], st)))"

text \<open>
  A run over a list of (socket id, event): the state it ends in, everything a given
  connection receives during it, and everything the events of a given connection emit.
\<close>

fun exec ::
  "(string \<Rightarrow> string option) \<Rightarrow> schema \<Rightarrow> relay \<Rightarrow> (sid \<times> inbound) list \<Rightarrow> relay" where
  "exec verify sch st [] = st"
| "exec verify sch st ((y, e) # tr) = exec verify sch (snd (step verify sch y e st)) tr"

fun received ::
  "(string \<Rightarrow> string option) \<Rightarrow> schema \<Rightarrow> relay \<Rightarrow> (sid \<times> inbound) list \<Rightarrow> sid
     \<Rightarrow> outbound list" where
  "received verify sch st [] x = []"
| "received verify sch st ((y, e) # tr) x =
     delivered st (fst (step verify sch y e st)) x
       @ received verify sch (snd (step verify sch y e st)) tr x"

fun emitted ::
  "(string \<Rightarrow> string option) \<Rightarrow> schema \<Rightarrow> relay \<Rightarrow> (sid \<times> inbound) list \<Rightarrow> sid
     \<Rightarrow> emission list" where
  "emitted verify sch st [] x = []"
| "emitted verify sch st ((y, e) # tr) x =
     (if y = x then fst (step verify sch y e st) else [])
       @ emitted verify sch (snd (step verify sch y e st)) tr x"

definition initial :: "database \<Rightarrow> relay" where
  "initial db = \<lparr>sockets = Map.empty, store = db\<rparr>"

subsection \<open>The message controller: queries\<close>

text \<open>
  \<^verbatim>\<open>.or(`and(sender_id.eq.${userId},receiver_id.eq.${otherUserId}),and(sender_id.eq.${otherUserId},receiver_id.eq.${userId})`)\<close>
\<close>

definition between :: "string \<Rightarrow> string \<Rightarrow> message \<Rightarrow> bool" where
  "between u other m \<longleftrightarrow>
     (sender_id m = u \<and> receiver_id m = other) \<or> (sender_id m = other \<and> receiver_id m = u)"

text \<open>
  \<^verbatim>\<open>.order('created_at', { ascending: false }).range(from, to)\<close>: the newest first, then
  the rows at positions \<open>from\<close> to \<open>to\<close>. The client sends the range as an offset and
  a limit, and the store refuses a negative one.
\<close>

definition select_conversation ::
  "fault option \<Rightarrow> database \<Rightarrow> string \<Rightarrow> string \<Rightarrow> int \<Rightarrow> int \<Rightarrow> listed_message list awaited" where
  "select_conversation f db u other from to =
     answer f
       (if from < 0 \<or> to - from + 1 < 0 then failed ''range''
        else ok (map (listed_of db)
               (take (nat (to - from + 1))
                 (drop (nat from)
                   (sort_key (\<lambda>m. - created_at m) (filter (between u other) (messages db)))))))"

text \<open>\<^verbatim>\<open>.update({ read_at: now }).in('id', ids)\<close>\<close>

definition update_read_at ::
  "fault option \<Rightarrow> database \<Rightarrow> string list \<Rightarrow> int \<Rightarrow> unit awaited \<times> database" where
  "update_read_at f db ids now =
     (if f \<noteq> None then (answer f (failed []), db)
      else (Resolved (ok ()),
            db\<lparr>messages :=
                 map (\<lambda>m. if message_id m \<in> set ids then m\<lparr>read_at := Some now\<rparr> else m)
                   (messages db)\<rparr>))"

text \<open>\<^verbatim>\<open>.select('*').eq('id', messageId).eq('sender_id', userId).single()\<close>\<close>

definition select_own_message ::
  "fault option \<Rightarrow> database \<Rightarrow> string \<Rightarrow> string \<Rightarrow> message awaited" where
  "select_own_message f db messageId u =
     answer f (single (filter (\<lambda>m. message_id m = messageId \<and> sender_id m = u) (messages db)))"

text \<open>\<^verbatim>\<open>.delete().eq('id', messageId)\<close>\<close>

definition delete_message ::
  "fault option \<Rightarrow> database \<Rightarrow> string \<Rightarrow> unit awaited \<times> database" where
  "delete_message f db messageId =
     (if f \<noteq> None then (answer f (failed []), db)
      else (Resolved (ok ()),
            db\<lparr>messages := filter (\<lambda>m. message_id m \<noteq> messageId) (messages db)\<rparr>))"

subsection \<open>The message controller: handlers\<close>

text \<open>
  A handler takes what it reads of the request (\<^verbatim>\<open>req.user?.id\<close>, the route parameter,
  the parsed query or body), the fault of each store call it makes, and the store; it
  returns the response (status and body) and the store it leaves behind.
\<close>

datatype body =
    Error_body string
  | Messages_body "listed_message list" bool
  | Message_body "message_view option"
  | Success_body

type_synonym response = "nat \<times> body"

text \<open>
  \<^verbatim>\<open>getMessages\<close>: \<open>page\<close> and \<open>limit\<close> are the values of \<^verbatim>\<open>parseInt\<close>; \<open>now\<close> is
  \<^verbatim>\<open>new Date()\<close>. The result of the update is not looked at.
\<close>

definition getMessages ::
  "string option \<Rightarrow> string \<Rightarrow> int \<Rightarrow> int \<Rightarrow> fault option \<Rightarrow> fault option \<Rightarrow> int \<Rightarrow> database
     \<Rightarrow> response \<times> database" where
  "getMessages req_user_id otherUserId page limit f1 f2 now db =
     (if falsy req_user_id then ((401, Error_body ''Unauthorized''), db)
      else
        (let u = the req_user_id; offset = (page - 1) * limit
         in case select_conversation f1 db u otherUserId offset (offset + limit - 1) of
              Throws \<Rightarrow> ((500, Error_body ''Internal server error''), db)
            | Resolved r \<Rightarrow>
                if error r \<noteq> None then ((500, Error_body ''Failed to fetch messages''), db)
                else
                  (let page_rows = (case data r of None \<Rightarrow> [] | Some ms \<Rightarrow> ms);
                       unreadMessageIds =
                         map (\<lambda>msg. message_id (listed_row msg))
                           (filter (\<lambda>msg. receiver_id (listed_row msg) = u
                                          \<and> read_at (listed_row msg) = None)
                              page_rows);
                       (updated, db') =
                         (if length unreadMessageIds > 0
                          then update_read_at f2 db unreadMessageIds now
                          else (Resolved (ok ()), db))
                   in case updated of
                        Throws \<Rightarrow> ((500, Error_body ''Internal server error''), db')
                      | Resolved _ \<Rightarrow>
                          ((200, Messages_body (rev page_rows)
                                   (data r \<noteq> None \<and> int (length page_rows) = limit)), db'))))"

text \<open>\<^verbatim>\<open>sendMessage\<close> (the HTTP path).\<close>

definition sendMessage ::
  "schema \<Rightarrow> string option \<Rightarrow> string option \<Rightarrow> string option \<Rightarrow> string option
     \<Rightarrow> fault option \<Rightarrow> fault option \<Rightarrow> string \<Rightarrow> int \<Rightarrow> database \<Rightarrow> response \<times> database" where
  "sendMessage sch req_user_id body_receiverId body_text body_imageUrl f1 f2 fresh_id now db =
     (if falsy req_user_id then ((401, Error_body ''Unauthorized''), db)
      else if falsy body_receiverId \<or> (falsy body_text \<and> falsy body_imageUrl)
      then ((400, Error_body ''Receiver ID and message content are required''), db)
      else
        (case select_user f1 db (the body_receiverId) of
           Throws \<Rightarrow> ((500, Error_body ''Internal server error''), db)
         | Resolved rcv \<Rightarrow>
             if error rcv \<noteq> None \<or> data rcv = None
             then ((404, Error_body ''Receiver not found''), db)
             else
               (case insert_message sch f2 fresh_id now db
                       \<lparr>new_sender_id = the req_user_id,
                        new_receiver_id = the body_receiverId,
                        new_text = (case or_null body_text of None \<Rightarrow> [] | Some t \<Rightarrow> t),
                        new_image_url = or_null body_imageUrl\<rparr> of
                  (Throws, db') \<Rightarrow> ((500, Error_body ''Internal server error''), db')
                | (Resolved r, db') \<Rightarrow>
                    if error r \<noteq> None then ((500, Error_body ''Failed to send message''), db')
                    else ((201, Message_body (map_option (view_of db) (data r))), db'))))"

text \<open>\<^verbatim>\<open>deleteMessage\<close>.\<close>

definition deleteMessage ::
  "string option \<Rightarrow> string \<Rightarrow> fault option \<Rightarrow> fault option \<Rightarrow> database \<Rightarrow> response \<times> database" where
  "deleteMessage req_user_id messageId f1 f2 db =
     (if falsy req_user_id then ((401, Error_body ''Unauthorized''), db)
      else
        (case select_own_message f1 db messageId (the req_user_id) of
           Throws \<Rightarrow> ((500, Error_body ''Internal server error''), db)
         | Resolved r \<Rightarrow>
             if error r \<noteq> None \<or> data r = None
             then ((404, Error_body ''Message not found or unauthorized''), db)
             else
               (case delete_message f2 db messageId of
                  (Throws, db') \<Rightarrow> ((500, Error_body ''Internal server error''), db')
                | (Resolved d, db') \<Rightarrow>
                    if error d \<noteq> None then ((500, Error_body ''Failed to delete message''), db')
                    else ((200, Success_body), db'))))"

text \<open>
  The error taxonomy as the specification words it (its section 7): an authorization
  error (a valid identity with insufficient rights) is a response with status 403, a
  not-found error one with status 404.
\<close>

definition spec_authorization_error :: "response \<Rightarrow> bool" where
  "spec_authorization_error res \<longleftrightarrow> fst res = 403"

definition spec_not_found_error :: "response \<Rightarrow> bool" where
  "spec_not_found_error res \<longleftrightarrow> fst res = 404"

text \<open>The primary key of \<^verbatim>\<open>messages\<close>: no two rows share an id.\<close>

definition primary_key :: "database \<Rightarrow> bool" where
  "primary_key db \<longleftrightarrow> distinct (map message_id (messages db))"

subsection \<open>Invariants and hypotheses of the statements below\<close>

text \<open>
  The rooms of a connection are its personal room and conversation rooms of its own
  identity: the only two \<^verbatim>\<open>socket.join\<close> calls of the relay.
\<close>

definition rooms_ok :: "relay \<Rightarrow> bool" where
  "rooms_ok st \<longleftrightarrow>
     (\<forall>x c. sockets st x = Some c \<longrightarrow>
        user_room (userId c) \<in> rooms c \<and>
        (\<forall>r \<in> rooms c. r = user_room (userId c)
                         \<or> (\<exists>other. r = join_conversation_room (userId c) other)))"

text \<open>
  A credential the middleware has to turn away: no token, a token \<^verbatim>\<open>jwt.verify\<close> throws
  on, or a token whose \<^verbatim>\<open>userId\<close> is no row of \<^verbatim>\<open>users\<close>.
\<close>

definition bad_credential :: "(string \<Rightarrow> string option) \<Rightarrow> database \<Rightarrow> string option \<Rightarrow> bool" where
  "bad_credential verify db token \<longleftrightarrow>
     falsy token
     \<or> verify (the token) = None
     \<or> find_user db (the (verify (the token))) = None"

text \<open>Every connection attempt that \<open>x\<close> makes in the run carries a bad credential.\<close>

definition only_bad_handshakes ::
  "(string \<Rightarrow> string option) \<Rightarrow> database \<Rightarrow> sid \<Rightarrow> (sid \<times> inbound) list \<Rightarrow> bool" where
  "only_bad_handshakes verify db x tr =
     list_all (\<lambda>(y, e). y \<noteq> x \<or>
                 (case e of Handshake token f \<Rightarrow> bad_credential verify db token | _ \<Rightarrow> True)) tr"

text \<open>
  The limiter's map \<open>rq\<close> stands for the list \<open>adm\<close> of admitted requests from time
  \<open>T\<close> on: for every later time, the recorded times inside the window are the admitted
  ones inside the window.
\<close>

definition tracks :: "int \<Rightarrow> int \<Rightarrow> 'k requests \<Rightarrow> ('k \<times> int) list \<Rightarrow> bool" where
  "tracks w T rq adm \<longleftrightarrow>
     (\<forall>k now. T \<le> now \<longrightarrow>
        filter (\<lambda>t. t > now - w) (recorded rq k) = recent_admitted w adm k now)"

text \<open>The filter of \<^verbatim>\<open>getMessages\<close>: \<^verbatim>\<open>msg.receiver_id === userId && !msg.read_at\<close>.\<close>

definition unread_for :: "string \<Rightarrow> message \<Rightarrow> bool" where
  "unread_for u m \<longleftrightarrow> receiver_id m = u \<and> read_at m = None"

text \<open>The rows of the page a response to \<^verbatim>\<open>getMessages\<close> carries (none for an error).\<close>

definition returned_page :: "response \<Rightarrow> message set" where
  "returned_page res = (case snd res of Messages_body vs hasMore \<Rightarrow> listed_row ` set vs | _ \<Rightarrow> {})"

subsection \<open>Example data\<close>

text \<open>
  Two users, a store with one message in each direction, a verifier that knows one token
  for each user, and a run in which each user opens one connection.
\<close>

definition alice :: user where
  "alice = \<lparr>user_id = ''u1'', username = ''alice'', display_name = ''Alice'',
            avatar_url = None, is_verified = False\<rparr>"

definition bob :: user where
  "bob = \<lparr>user_id = ''u2'', username = ''bob'', display_name = ''Bob'',
          avatar_url = None, is_verified = True\<rparr>"

definition first_message :: message where
  "first_message = \<lparr>message_id = ''m1'', sender_id = ''u1'', receiver_id = ''u2'',
                    message_text = ''hello'', image_url = None, created_at = 10,
                    read_at = None\<rparr>"

definition second_message :: message where
  "second_message = \<lparr>message_id = ''m2'', sender_id = ''u2'', receiver_id = ''u1'',
                     message_text = ''hi'', image_url = None, created_at = 20,
                     read_at = None\<rparr>"

definition example_db :: database where
  "example_db = \<lparr>users = [alice, bob], messages = [first_message, second_message]\<rparr>"

definition example_verify :: "string \<Rightarrow> string option" where
  "example_verify token =
     (if token = ''t1'' then Some ''u1'' else if token = ''t2'' then Some ''u2''
      else if token = ''t3'' then Some ''u3'' else None)"

definition two_connections :: "(sid \<times> inbound) list" where
  "two_connections = [(7, Handshake (Some ''t1'') None), (8, Handshake (Some ''t2'') None)]"

definition example_relay :: relay where
  "example_relay = exec example_verify services_supabase_schema (initial example_db) two_connections"

section \<open>Properties\<close>

subsection \<open>Canonical conversation key\<close>

lemma conversationId_example: "conversationId ''u1'' ''u2'' = ''u1:u2''"
  by (simp add: conversationId_def)

lemma conversationId_example_swapped: "conversationId ''u2'' ''u1'' = ''u1:u2''"
  by (simp add: conversationId_def)

text \<open>
  C2. The canonical conversation key is symmetric: the key of \<open>(a, b)\<close> is the key of
  \<open>(b, a)\<close>. It is the two identities in lexicographic order with a colon between
  them, and the room a connection joins on \<^verbatim>\<open>join_conversation\<close> is the room
  \<^verbatim>\<open>send_message\<close> broadcasts to, for the same pair in either order.
\<close>

theorem conversationId_symmetric:
  "conversationId a b = conversationId b a
   \<and> conversationId a b = (if a \<le> b then a @ '':'' @ b else b @ '':'' @ a)
   \<and> join_conversation_room a b = send_message_room b a
   \<and> join_conversation_room a b = send_message_room a b"
proof -
  have key: "conversationId a b = (if a \<le> b then a @ '':'' @ b else b @ '':'' @ a)"
    for a b :: string
    by (simp add: conversationId_def)
  have sym: "conversationId a b = conversationId b a"
    by (cases "a \<le> b"; cases "b \<le> a") (auto simp: key)
  show ?thesis using key sym
    by (simp add: join_conversation_room_def send_message_room_def)
qed

subsection \<open>Rate limiter\<close>

lemma recorded_clean_old:
  "recorded (clean_old ws rq) k = filter (\<lambda>time. time > ws) (recorded rq k)"
  by (simp add: recorded_def clean_old_def Let_def split: option.splits)

text \<open>
  C8. The middleware is a sliding window for each address, stated on the map itself. A
  request at \<open>now\<close> gets status 429 exactly when the entry of its address holds at least
  \<open>maxRequests\<close> times newer than \<open>now - windowMs\<close>. Then nothing is recorded: every
  entry keeps its times newer than \<open>now - windowMs\<close> and is deleted when none is left.
  Otherwise the request is passed on and the entry of its address becomes its times
  newer than \<open>now - windowMs\<close> followed by \<open>now\<close>; the other entries are cleaned alike.
\<close>

theorem createRateLimit_sliding_window:
  "((\<exists>retry. fst (createRateLimit windowMs maxRequests requests key now) = Status429 retry)
      \<longleftrightarrow> maxRequests \<le> int (length (filter (\<lambda>time. now - windowMs < time)
                                   (case requests key of None \<Rightarrow> [] | Some ts \<Rightarrow> ts))))
   \<and> createRateLimit windowMs maxRequests requests key now =
     (if maxRequests \<le> int (length (filter (\<lambda>time. now - windowMs < time)
                                 (case requests key of None \<Rightarrow> [] | Some ts \<Rightarrow> ts)))
      then (Status429 (- ((- windowMs) div 1000)),
            (\<lambda>ip. case requests ip of
                     None \<Rightarrow> None
                   | Some ts \<Rightarrow>
                       if filter (\<lambda>time. now - windowMs < time) ts = [] then None
                       else Some (filter (\<lambda>time. now - windowMs < time) ts)))
      else (Next,
            (\<lambda>ip. if ip = key
                   then Some (filter (\<lambda>time. now - windowMs < time)
                                (case requests key of None \<Rightarrow> [] | Some ts \<Rightarrow> ts) @ [now])
                   else case requests ip of
                          None \<Rightarrow> None
                        | Some ts \<Rightarrow>
                            if filter (\<lambda>time. now - windowMs < time) ts = [] then None
                            else Some (filter (\<lambda>time. now - windowMs < time) ts))))"
proof -
  let ?old = "case requests key of None \<Rightarrow> [] | Some ts \<Rightarrow> ts"
  let ?recent = "filter (\<lambda>time. now - windowMs < time) ?old"
  let ?cleaned = "\<lambda>ip. case requests ip of
                     None \<Rightarrow> None
                   | Some ts \<Rightarrow>
                       if filter (\<lambda>time. now - windowMs < time) ts = [] then None
                       else Some (filter (\<lambda>time. now - windowMs < time) ts)"
  have cleaned: "clean_old (now - windowMs) requests = ?cleaned"
    by (rule ext) (simp add: clean_old_def Let_def split: option.splits)
  have recent: "recorded (clean_old (now - windowMs) requests) key = ?recent"
    by (simp add: recorded_def clean_old_def Let_def split: option.splits)
  have admitted: "?cleaned(key \<mapsto> ?recent @ [now]) =
      (\<lambda>ip. if ip = key then Some (?recent @ [now]) else ?cleaned ip)"
    by (rule ext) simp
  have run: "createRateLimit windowMs maxRequests requests key now =
     (if maxRequests \<le> int (length ?recent)
      then (Status429 (- ((- windowMs) div 1000)), ?cleaned)
      else (Next, (\<lambda>ip. if ip = key then Some (?recent @ [now]) else ?cleaned ip)))"
    unfolding createRateLimit_def Let_def recent retryAfter_def
    by (simp only: cleaned admitted)
  have iff: "(\<exists>retry. fst (createRateLimit windowMs maxRequests requests key now) = Status429 retry)
      \<longleftrightarrow> maxRequests \<le> int (length ?recent)"
    unfolding run by simp
  from iff run show ?thesis by (rule conjI)
qed

text \<open>
  An instance: two requests in the last 10 ms and two allowed, so the third is answered
  429 and not recorded; with three allowed it is passed on and recorded.
\<close>

theorem createRateLimit_sliding_window_witness:
  "fst (createRateLimit 10 2 [''10.0.0.1'' \<mapsto> [1, 2]] ''10.0.0.1'' 5) = Status429 1
   \<and> snd (createRateLimit 10 2 [''10.0.0.1'' \<mapsto> [1, 2]] ''10.0.0.1'' 5) ''10.0.0.1'' = Some [1, 2]
   \<and> fst (createRateLimit 10 3 [''10.0.0.1'' \<mapsto> [1, 2]] ''10.0.0.1'' 5) = Next
   \<and> snd (createRateLimit 10 3 [''10.0.0.1'' \<mapsto> [1, 2]] ''10.0.0.1'' 5) ''10.0.0.1'' = Some [1, 2, 5]
   \<and> snd (createRateLimit 10 3 [''10.0.0.1'' \<mapsto> [1, 2]] ''10.0.0.1'' 50) ''10.0.0.1'' = Some [50]"
proof -
  note a = createRateLimit_sliding_window[of 10 2 "[''10.0.0.1'' \<mapsto> [1, 2]]" "''10.0.0.1''" 5]
  note b = createRateLimit_sliding_window[of 10 3 "[''10.0.0.1'' \<mapsto> [1, 2]]" "''10.0.0.1''" 5]
  note c = createRateLimit_sliding_window[of 10 3 "[''10.0.0.1'' \<mapsto> [1, 2]]" "''10.0.0.1''" 50]
  show ?thesis
    unfolding a[THEN conjunct2] b[THEN conjunct2] c[THEN conjunct2] by simp
qed

lemma filter_newer_twice:
  "(a::int) \<le> b \<Longrightarrow> filter (\<lambda>t. t > b) (filter (\<lambda>t. t > a) xs) = filter (\<lambda>t. t > b) xs"
  by (induction xs) auto


lemma tracks_empty: "tracks w T Map.empty []"
  by (simp add: tracks_def recorded_def recent_admitted_def)

lemma tracks_now: "tracks w T rq adm \<Longrightarrow> T \<le> now \<Longrightarrow>
   recorded (clean_old (now - w) rq) k = recent_admitted w adm k now"
  by (simp add: recorded_clean_old tracks_def)

lemma tracks_reject:
  assumes "tracks w T rq adm" "T \<le> now"
  shows "tracks w now (clean_old (now - w) rq) adm"
  unfolding tracks_def
proof (intro allI impI)
  fix k now' assume le: "now \<le> now'"
  have "filter (\<lambda>t. t > now' - w) (recorded (clean_old (now - w) rq) k)
        = filter (\<lambda>t. t > now' - w) (recorded rq k)"
    using le by (simp only: recorded_clean_old filter_newer_twice diff_right_mono)
  also have "\<dots> = recent_admitted w adm k now'"
    using assms le by (simp add: tracks_def)
  finally show "filter (\<lambda>t. t > now' - w) (recorded (clean_old (now - w) rq) k)
        = recent_admitted w adm k now'" .
qed

lemma recent_admitted_snoc:
  "recent_admitted w (adm @ [(key, now)]) k now' =
     recent_admitted w adm k now' @ (if key = k \<and> now > now' - w then [now] else [])"
  by (simp add: recent_admitted_def)

lemma tracks_admit:
  assumes "tracks w T rq adm" "T \<le> now"
  shows "tracks w now ((clean_old (now - w) rq)(key \<mapsto> recorded (clean_old (now - w) rq) key @ [now]))
           (adm @ [(key, now)])"
proof -
  have r: "tracks w now (clean_old (now - w) rq) adm" using assms by (rule tracks_reject)
  show ?thesis
    unfolding tracks_def
  proof (intro allI impI)
    fix k now' assume le: "now \<le> now'"
    have base: "filter (\<lambda>t. t > now' - w) (recorded (clean_old (now - w) rq) k)
        = recent_admitted w adm k now'" using r le by (simp add: tracks_def)
    show "filter (\<lambda>t. t > now' - w)
            (recorded ((clean_old (now - w) rq)(key \<mapsto> recorded (clean_old (now - w) rq) key @ [now])) k)
          = recent_admitted w (adm @ [(key, now)]) k now'"
    proof (cases "k = key")
      case True
      then show ?thesis using base by (simp add: recorded_def recent_admitted_snoc)
    next
      case False
      then show ?thesis using base by (simp add: recorded_def recent_admitted_snoc)
    qed
  qed
qed

lemma serve_window_spec:
  "tracks w T rq adm \<Longrightarrow> sorted (T # map snd reqs) \<Longrightarrow>
     fst (serve w m rq reqs) = window_spec w m adm reqs"
proof (induction reqs arbitrary: T rq adm)
  case Nil
  then show ?case by simp
next
  case (Cons a reqs)
  obtain key now where a: "a = (key, now)" by (cases a)
  from Cons.prems have le: "T \<le> now" and srt: "sorted (now # map snd reqs)"
    by (simp_all add: a)
  have cur: "recorded (clean_old (now - w) rq) key = recent_admitted w adm key now"
    using Cons.prems(1) le by (rule tracks_now)
  show ?case
  proof (cases "int (length (recent_admitted w adm key now)) \<ge> m")
    case True
    have "fst (serve w m (clean_old (now - w) rq) reqs) = window_spec w m adm reqs"
      using tracks_reject[OF Cons.prems(1) le] srt by (rule Cons.IH)
    then show ?thesis using True cur
      by (simp add: a createRateLimit_def Let_def split_beta)
  next
    case False
    have "fst (serve w m ((clean_old (now - w) rq)(key \<mapsto> recorded (clean_old (now - w) rq) key @ [now])) reqs)
          = window_spec w m (adm @ [(key, now)]) reqs"
      using tracks_admit[OF Cons.prems(1) le] srt by (rule Cons.IH)
    then show ?thesis using False cur
      by (simp add: a createRateLimit_def Let_def split_beta)
  qed
qed

text \<open>
  C10. A request answered with 429 is not recorded: the map is only cleaned, and the
  entry of the address holds what it held inside the window. Hence, for requests
  arriving in the order of their times, the limiter decides each one as the sliding
  window over the previously admitted requests does: rejected requests do not count.
\<close>
theorem rejected_requests_not_recorded:
  fixes reqs :: "('k \<times> int) list"
  assumes "sorted (map snd reqs)"
  shows "fst (serve windowMs maxRequests Map.empty reqs) = window_spec windowMs maxRequests [] reqs
       \<and> (\<forall>(requests :: 'k requests) key now r.
             fst (createRateLimit windowMs maxRequests requests key now) = Status429 r \<longrightarrow>
             snd (createRateLimit windowMs maxRequests requests key now)
               = clean_old (now - windowMs) requests
             \<and> recorded (snd (createRateLimit windowMs maxRequests requests key now)) key
               = filter (\<lambda>time. now - windowMs < time) (recorded requests key))"
proof -
  have a: "fst (serve windowMs maxRequests Map.empty reqs) = window_spec windowMs maxRequests [] reqs"
  proof (cases reqs)
    case Nil
    then show ?thesis by simp
  next
    case (Cons q qs)
    have "tracks windowMs (snd q) Map.empty []" by (rule tracks_empty)
    moreover have "sorted (snd q # map snd reqs)" using assms Cons by simp
    ultimately show ?thesis by (rule serve_window_spec)
  qed
  have b: "fst (createRateLimit windowMs maxRequests requests key now) = Status429 r \<longrightarrow>
             snd (createRateLimit windowMs maxRequests requests key now)
               = clean_old (now - windowMs) requests
             \<and> recorded (snd (createRateLimit windowMs maxRequests requests key now)) key
               = filter (\<lambda>time. now - windowMs < time) (recorded requests key)"
    for requests :: "'k requests" and key now r
    by (auto simp: createRateLimit_def Let_def recorded_clean_old split: if_splits)
  show ?thesis using a b by blast
qed

text \<open>
  An instance: window 10, one request allowed. The request at 5 is rejected and is not
  counted at 11, when the request at 0 has left the window.
\<close>
theorem rejected_requests_not_recorded_witness:
  "sorted (map snd [(''10.0.0.1'', 0::int), (''10.0.0.1'', 5), (''10.0.0.1'', 11)])
   \<and> fst (serve 10 1 Map.empty [(''10.0.0.1'', 0), (''10.0.0.1'', 5), (''10.0.0.1'', 11)])
       = [Next, Status429 1, Next]"
proof -
  let ?reqs = "[(''10.0.0.1'', 0::int), (''10.0.0.1'', 5), (''10.0.0.1'', 11)]"
  have s: "sorted (map snd ?reqs)" by simp
  have "fst (serve 10 1 Map.empty ?reqs) = window_spec 10 1 [] ?reqs"
    using rejected_requests_not_recorded[OF s, of 10 1] by (rule conjunct1)
  also have "\<dots> = [Next, Status429 1, Next]"
    by (simp add: recent_admitted_def retryAfter_def)
  finally have r: "fst (serve 10 1 Map.empty ?reqs) = [Next, Status429 1, Next]" .
  from s r show ?thesis by (rule conjI)
qed

subsection \<open>The relay\<close>

lemma user_room_inj: "user_room a = user_room b \<longleftrightarrow> a = b"
  by (simp add: user_room_def)

lemma user_room_not_conversation: "user_room a \<noteq> join_conversation_room b c"
  by (simp add: user_room_def join_conversation_room_def conversation_room_def)

lemma rooms_ok_initial: "rooms_ok (initial db)"
  by (simp add: rooms_ok_def initial_def)

lemma rooms_ok_on_connection: "rooms_ok st \<Longrightarrow> rooms_ok (on_connection x uid st)"
  by (auto simp: rooms_ok_def on_connection_def)

lemma rooms_ok_join: "rooms_ok st \<Longrightarrow> rooms_ok (join_conversation x other st)"
  by (auto simp: rooms_ok_def join_conversation_def split: option.splits)

lemma rooms_ok_disconnect: "rooms_ok st \<Longrightarrow> rooms_ok (disconnect x st)"
  by (auto simp: rooms_ok_def disconnect_def)

lemma rooms_ok_store: "rooms_ok (st\<lparr>store := db\<rparr>) = rooms_ok st"
  by (simp add: rooms_ok_def)

lemma rooms_ok_handle: "rooms_ok st \<Longrightarrow> rooms_ok (snd (handle sch x c e st))"
  by (cases e) (simp_all add: rooms_ok_join rooms_ok_disconnect rooms_ok_store split_beta)

lemma rooms_ok_step:
  assumes "rooms_ok st"
  shows "rooms_ok (snd (step verify sch x e st))"
proof (cases "sockets st x")
  case (Some c)
  then show ?thesis using assms by (simp add: step_def rooms_ok_handle)
next
  case None
  then show ?thesis using assms
    by (cases e)
       (simp_all add: step_def connect_def rooms_ok_on_connection split: sum.splits)
qed

lemma rooms_ok_exec: "rooms_ok st \<Longrightarrow> rooms_ok (exec verify sch st tr)"
  by (induction tr arbitrary: st) (auto simp: rooms_ok_step)

lemma reachable_rooms_ok: "rooms_ok (exec verify sch (initial db) tr)"
  by (simp add: rooms_ok_exec rooms_ok_initial)

lemma personal_room_member:
  "rooms_ok st \<Longrightarrow> sockets st y = Some c \<Longrightarrow> in_room st y (user_room (userId c))"
  by (simp add: rooms_ok_def in_room_def)

lemma personal_room_only_owner:
  assumes "rooms_ok st" "sockets st y = Some c" "in_room st y (user_room r)"
  shows "userId c = r"
proof -
  from assms(2,3) have mem: "user_room r \<in> rooms c" by (simp add: in_room_def)
  from assms(1,2) have
    "\<forall>q \<in> rooms c. q = user_room (userId c) \<or> (\<exists>other. q = join_conversation_room (userId c) other)"
    by (simp add: rooms_ok_def)
  with mem have "user_room r = user_room (userId c)
                 \<or> (\<exists>other. user_room r = join_conversation_room (userId c) other)"
    by blast
  then show ?thesis by (auto simp: user_room_inj user_room_not_conversation)
qed

lemma insert_message_success:
  assumes "insert_message sch f fresh_id now db n = (Resolved rep, db')" "error rep = None"
  shows "rep = ok (stored_row fresh_id now n)"
    and "db' = db\<lparr>messages := messages db @ [stored_row fresh_id now n]\<rparr>"
    and "\<not> constraint_violated sch db fresh_id n"
  using assms
  by (auto simp: insert_message_def Let_def failed_def answer_def
           split: if_splits option.splits fault.splits)

lemma insert_message_failure:
  assumes "insert_message sch f fresh_id now db n = (res, db')"
    "res = Throws \<or> (\<exists>rep. res = Resolved rep \<and> error rep \<noteq> None)"
  shows "db' = db"
  using assms
  by (auto simp: insert_message_def Let_def ok_def split: if_splits)

lemma find_user_Some: "find_user db uid = Some u \<Longrightarrow> user_id u = uid"
  by (auto simp: find_user_def find_Some_iff)

lemma delivered_unconnected: "sockets st x = None \<Longrightarrow> delivered st ems x = []"
proof -
  assume n: "sockets st x = None"
  have "\<And>t. \<not> reaches st t x"
  proof -
    fix t show "\<not> reaches st t x" using n by (cases t) (simp_all add: in_room_def)
  qed
  then show ?thesis by (simp add: delivered_def split_beta)
qed

text \<open>
  C1. On a connection of user \<open>s\<close>, a \<^verbatim>\<open>send_message\<close> naming \<open>r\<close> whose store write
  succeeds stores one row and emits exactly two events. The first is \<^verbatim>\<open>new_message\<close> to
  the room \<^verbatim>\<open>conversation:\<close> followed by the two identities in lexicographic order with a
  colon between them; it carries the stored row and the sender's id, username, display
  name and avatar. The second is \<^verbatim>\<open>message_notification\<close>, the sender's id and the same
  record, to the room \<^verbatim>\<open>user:\<close> followed by \<open>r\<close>. Every connection of \<open>r\<close> receives the
  notification, also one that never joined the conversation, which receives nothing else.
\<close>
theorem send_message_success:
  assumes reach: "st = exec verify sch (initial db) tr"
      and sock: "sockets st x = Some c"
      and ins: "insert_message sch f fresh_id now (store st)
                  \<lparr>new_sender_id = userId c, new_receiver_id = receiverId d,
                   new_text = text_field d, new_image_url = or_null (imageUrl d)\<rparr>
                = (Resolved rep, db')"
      and noerr: "error rep = None"
  shows "\<exists>m u p key.
           m = \<lparr>message_id = fresh_id, sender_id = userId c, receiver_id = receiverId d,
                message_text = text_field d,
                image_url = (case imageUrl d of None \<Rightarrow> None
                             | Some url \<Rightarrow> if url = [] then None else Some url),
                created_at = now, read_at = None\<rparr>
         \<and> find_user (store st) (userId c) = Some u \<and> user_id u = userId c
         \<and> p = \<lparr>sent_row = m,
                  sent_sender = Some \<lparr>profile_id = user_id u, profile_username = username u,
                                       profile_display_name = display_name u,
                                       profile_avatar_url = avatar_url u\<rparr>\<rparr>
         \<and> key = (if userId c \<le> receiverId d then userId c @ '':'' @ receiverId d
                   else receiverId d @ '':'' @ userId c)
         \<and> messages db' = messages (store st) @ [m]
         \<and> step verify sch x (Send_message d f fresh_id now) st =
             ([(To_room (''conversation:'' @ key), New_message (Some p)),
               (To_room (''user:'' @ receiverId d), Message_notification (userId c) (Some p))],
              st\<lparr>store := db'\<rparr>)
         \<and> (\<forall>y cy. sockets st y = Some cy \<and> userId cy = receiverId d \<longrightarrow>
               delivered st (fst (step verify sch x (Send_message d f fresh_id now) st)) y =
                 (if in_room st y (''conversation:'' @ key)
                  then [New_message (Some p), Message_notification (userId c) (Some p)]
                  else [Message_notification (userId c) (Some p)]))"
proof -
  let ?n = "\<lparr>new_sender_id = userId c, new_receiver_id = receiverId d,
             new_text = text_field d, new_image_url = or_null (imageUrl d)\<rparr>"
  let ?m = "\<lparr>message_id = fresh_id, sender_id = userId c, receiver_id = receiverId d,
                message_text = text_field d,
                image_url = (case imageUrl d of None \<Rightarrow> None
                             | Some url \<Rightarrow> if url = [] then None else Some url),
                created_at = now, read_at = None\<rparr>"
  let ?key = "if userId c \<le> receiverId d then userId c @ '':'' @ receiverId d
              else receiverId d @ '':'' @ userId c"
  have m: "stored_row fresh_id now ?n = ?m" by (simp add: stored_row_def or_null_def)
  have rep: "rep = ok ?m" and db': "db' = (store st)\<lparr>messages := messages (store st) @ [?m]\<rparr>"
    and nv: "\<not> constraint_violated sch (store st) fresh_id ?n"
    using insert_message_success[OF ins noerr] by (simp_all add: m)
  from nv obtain u where u: "find_user (store st) (userId c) = Some u"
    by (auto simp: constraint_violated_def)
  have uid: "user_id u = userId c" using u by (rule find_user_Some)
  let ?p = "\<lparr>sent_row = ?m,
             sent_sender = Some \<lparr>profile_id = user_id u, profile_username = username u,
                                  profile_display_name = display_name u,
                                  profile_avatar_url = avatar_url u\<rparr>\<rparr>"
  have p: "sent_of (store st) ?m = ?p" using u by (simp add: sent_of_def profile_of_def)
  have room: "send_message_room (userId c) (receiverId d) = ''conversation:'' @ ?key"
    by (simp add: send_message_room_def conversation_room_def conversationId_def)
  have stp: "step verify sch x (Send_message d f fresh_id now) st =
             ([(To_room (''conversation:'' @ ?key), New_message (Some ?p)),
               (To_room (''user:'' @ receiverId d), Message_notification (userId c) (Some ?p))],
              st\<lparr>store := db'\<rparr>)"
    using sock ins rep p room
    by (simp add: step_def send_message_def ok_def user_room_def Let_def)
  have ok: "rooms_ok st" unfolding reach by (rule reachable_rooms_ok)
  have del: "\<forall>y cy. sockets st y = Some cy \<and> userId cy = receiverId d \<longrightarrow>
               delivered st (fst (step verify sch x (Send_message d f fresh_id now) st)) y =
                 (if in_room st y (''conversation:'' @ ?key)
                  then [New_message (Some ?p), Message_notification (userId c) (Some ?p)]
                  else [Message_notification (userId c) (Some ?p)])"
  proof (intro allI impI)
    fix y cy assume a: "sockets st y = Some cy \<and> userId cy = receiverId d"
    then have "in_room st y (''user:'' @ receiverId d)"
      using personal_room_member[OF ok, of y cy] by (simp add: user_room_def)
    then show "delivered st (fst (step verify sch x (Send_message d f fresh_id now) st)) y =
                 (if in_room st y (''conversation:'' @ ?key)
                  then [New_message (Some ?p), Message_notification (userId c) (Some ?p)]
                  else [Message_notification (userId c) (Some ?p)])"
      unfolding stp by (simp add: delivered_def)
  qed
  have msgs: "messages db' = messages (store st) @ [?m]" using db' by simp
  show ?thesis
    by (intro exI[of _ ?m] exI[of _ u] exI[of _ ?p] exI[of _ ?key] conjI refl u uid msgs stp del)
qed

text \<open>
  C3. When the store write of a \<^verbatim>\<open>send_message\<close> fails (the query returns an error, or
  the call throws), the handler emits exactly one \<^verbatim>\<open>message_error\<close>, to the sending
  socket alone, and nothing else; it returns normally and leaves the relay as it was.
\<close>
theorem send_message_failure:
  assumes sock: "sockets st x = Some c"
      and ins: "insert_message sch f fresh_id now (store st)
                  \<lparr>new_sender_id = userId c, new_receiver_id = receiverId d,
                   new_text = text_field d, new_image_url = or_null (imageUrl d)\<rparr>
                = (res, db')"
      and fails: "res = Throws \<or> (\<exists>rep. res = Resolved rep \<and> error rep \<noteq> None)"
  shows "step verify sch x (Send_message d f fresh_id now) st =
           ([(To_socket x, Message_error ''Failed to send message'')], st)
       \<and> (\<forall>y. delivered st (fst (step verify sch x (Send_message d f fresh_id now) st)) y =
                (if y = x then [Message_error ''Failed to send message''] else []))"
proof -
  have db': "db' = store st" using ins fails by (rule insert_message_failure)
  have stp: "step verify sch x (Send_message d f fresh_id now) st =
           ([(To_socket x, Message_error ''Failed to send message'')], st)"
    using sock ins fails db'
    by (auto simp: step_def send_message_def)
  show ?thesis using sock by (simp add: stp delivered_def)
qed

text \<open>
  C6. A connection of \<open>s\<close> that sends \<^verbatim>\<open>typing_start\<close> and then \<^verbatim>\<open>typing_stop\<close> naming
  another user \<open>r\<close> emits exactly two \<^verbatim>\<open>user_typing\<close> events to the personal room of
  \<open>r\<close>, with \<open>s\<close> and the values true, then false. Every connection of \<open>r\<close> receives
  both in that order; every other connection, those of \<open>s\<close> among them, receives nothing.
\<close>
theorem typing_start_stop:
  assumes reach: "st = exec verify sch (initial db) tr"
      and sock: "sockets st x = Some c"
      and distinct: "userId c \<noteq> r"
  shows "emitted verify sch st [(x, Typing_start r), (x, Typing_stop r)] x =
           [(To_room_except (user_room r) x, User_typing (userId c) True),
            (To_room_except (user_room r) x, User_typing (userId c) False)]
       \<and> (\<forall>y. received verify sch st [(x, Typing_start r), (x, Typing_stop r)] y =
                (case sockets st y of
                   None \<Rightarrow> []
                 | Some cy \<Rightarrow> if userId cy = r
                              then [User_typing (userId c) True, User_typing (userId c) False]
                              else []))"
proof -
  have ok: "rooms_ok st" unfolding reach by (rule reachable_rooms_ok)
  have s1: "step verify sch x (Typing_start r) st =
              ([(To_room_except (user_room r) x, User_typing (userId c) True)], st)"
    using sock by (simp add: step_def typing_start_def)
  have s2: "step verify sch x (Typing_stop r) st =
              ([(To_room_except (user_room r) x, User_typing (userId c) False)], st)"
    using sock by (simp add: step_def typing_stop_def)
  have em: "emitted verify sch st [(x, Typing_start r), (x, Typing_stop r)] x =
           [(To_room_except (user_room r) x, User_typing (userId c) True),
            (To_room_except (user_room r) x, User_typing (userId c) False)]"
    by (simp add: s1 s2)
  have re: "received verify sch st [(x, Typing_start r), (x, Typing_stop r)] y =
                (case sockets st y of
                   None \<Rightarrow> []
                 | Some cy \<Rightarrow> if userId cy = r
                              then [User_typing (userId c) True, User_typing (userId c) False]
                              else [])" for y
  proof (cases "sockets st y")
    case None
    then show ?thesis by (simp add: s1 s2 delivered_unconnected)
  next
    case (Some cy)
    show ?thesis
    proof (cases "userId cy = r")
      case True
      then have "y \<noteq> x" using sock Some distinct by auto
      moreover have "in_room st y (user_room r)"
        using personal_room_member[OF ok Some] True by simp
      ultimately show ?thesis using Some True by (simp add: s1 s2 delivered_def)
    next
      case False
      then have "\<not> in_room st y (user_room r)"
        using personal_room_only_owner[OF ok Some] by blast
      then show ?thesis using Some False by (simp add: s1 s2 delivered_def)
    qed
  qed
  show ?thesis using em re by blast
qed

lemma bad_credential_rejected:
  assumes "bad_credential verify db token"
  shows "auth_middleware verify db f token = Inl Authentication_error"
proof (cases "falsy token")
  case True
  then show ?thesis by (simp add: auth_middleware_def)
next
  case nf: False
  show ?thesis
  proof (cases "verify (the token)")
    case None
    then show ?thesis using nf by (simp add: auth_middleware_def)
  next
    case (Some uid)
    with assms nf have "find_user db uid = None" by (simp add: bad_credential_def)
    then have "filter (\<lambda>u. user_id u = uid) (users db) = []"
      by (auto simp: find_user_def find_None_iff filter_empty_conv)
    then have "select_user f db uid = answer f (failed ''PGRST116'')"
      by (simp add: select_user_def single_def)
    then show ?thesis using nf Some
      by (auto simp: auth_middleware_def answer_def failed_def
               split: option.splits fault.splits)
  qed
qed

lemma handle_users: "users (store (snd (handle sch y c e st))) = users (store st)"
  by (cases e)
     (auto simp: join_conversation_def disconnect_def send_message_def insert_message_def
                 split_beta Let_def split: option.splits awaited.splits)

lemma step_users: "users (store (snd (step verify sch y e st))) = users (store st)"
proof (cases "sockets st y")
  case (Some c)
  then show ?thesis by (simp add: step_def handle_users)
next
  case None
  then show ?thesis
    by (cases e) (simp_all add: step_def connect_def on_connection_def split: sum.splits)
qed

lemma handle_other_socket:
  "y \<noteq> x \<Longrightarrow> sockets (snd (handle sch y c e st)) x = sockets st x"
  by (cases e)
     (auto simp: join_conversation_def disconnect_def split_beta split: option.splits)

lemma step_other_socket:
  "y \<noteq> x \<Longrightarrow> sockets (snd (step verify sch y e st)) x = sockets st x"
proof (cases "sockets st y")
  case (Some c)
  assume "y \<noteq> x"
  then show ?thesis using Some by (simp add: step_def handle_other_socket)
next
  case None
  assume "y \<noteq> x"
  then show ?thesis using None
    by (cases e) (simp_all add: step_def connect_def on_connection_def split: sum.splits)
qed

lemma bad_credential_users:
  "users db = users db' \<Longrightarrow> bad_credential verify db token = bad_credential verify db' token"
  by (simp add: bad_credential_def find_user_def)

lemma step_rejected:
  assumes "sockets st x = None"
      and "case e of Handshake token f \<Rightarrow> bad_credential verify (store st) token | _ \<Rightarrow> True"
  shows "step verify sch x e st = ([], st)"
  using assms
  by (cases e) (simp_all add: step_def connect_def bad_credential_rejected)

lemma isolated_run:
  assumes "sockets st x = None" and "users db = users (store st)"
      and "only_bad_handshakes verify db x tr"
  shows "sockets (exec verify sch st tr) x = None
       \<and> received verify sch st tr x = []
       \<and> emitted verify sch st tr x = []"
  using assms
proof (induction tr arbitrary: st)
  case Nil
  then show ?case by simp
next
  case (Cons a tr)
  obtain y e where a: "a = (y, e)" by (cases a)
  from Cons.prems(3) have rest: "only_bad_handshakes verify db x tr"
    and here: "y \<noteq> x \<or> (case e of Handshake token f \<Rightarrow> bad_credential verify db token | _ \<Rightarrow> True)"
    by (simp_all add: only_bad_handshakes_def a)
  let ?st' = "snd (step verify sch y e st)"
  have users': "users db = users (store ?st')" using Cons.prems(2) by (simp add: step_users)
  have none': "sockets ?st' x = None \<and> (y = x \<longrightarrow> fst (step verify sch y e st) = [])"
  proof (cases "y = x")
    case True
    with here have "case e of Handshake token f \<Rightarrow> bad_credential verify (store st) token | _ \<Rightarrow> True"
      using bad_credential_users[OF Cons.prems(2)] by (auto split: inbound.splits)
    then have "step verify sch x e st = ([], st)" using Cons.prems(1) by (rule step_rejected[rotated])
    then show ?thesis using True Cons.prems(1) by simp
  next
    case False
    then show ?thesis using Cons.prems(1) by (simp add: step_other_socket)
  qed
  have ih: "sockets (exec verify sch ?st' tr) x = None
       \<and> received verify sch ?st' tr x = []
       \<and> emitted verify sch ?st' tr x = []"
    using none' users' rest by (intro Cons.IH) simp_all
  show ?case using ih none' Cons.prems(1)
    by (simp add: a delivered_unconnected)
qed

lemma only_bad_handshakes_take:
  "only_bad_handshakes verify db x tr \<Longrightarrow> only_bad_handshakes verify db x (take n tr)"
  unfolding only_bad_handshakes_def list_all_iff
  by (meson in_set_takeD)

text \<open>
  C4. A connection attempt whose token is missing, does not verify, or names no user is
  answered with the authentication error. For a socket id \<open>x\<close> that only ever makes such
  attempts: at no point of the run is \<open>x\<close> in any room, \<open>x\<close> receives no event, and
  nothing that \<open>x\<close> sends makes the relay emit an event.
\<close>
theorem rejected_connection_isolated:
  assumes unconnected: "sockets st x = None"
      and bad: "only_bad_handshakes verify (store st) x tr"
  shows "(\<forall>token f. bad_credential verify (store st) token \<longrightarrow>
            connect verify x token f st = Inl Authentication_error)
       \<and> (\<forall>n r. \<not> in_room (exec verify sch st (take n tr)) x r)
       \<and> received verify sch st tr x = []
       \<and> emitted verify sch st tr x = []"
proof -
  have a: "\<forall>token f. bad_credential verify (store st) token \<longrightarrow>
            connect verify x token f st = Inl Authentication_error"
    by (simp add: connect_def bad_credential_rejected)
  have b: "\<not> in_room (exec verify sch st (take n tr)) x r" for n r
  proof -
    have "sockets (exec verify sch st (take n tr)) x = None"
      using isolated_run[OF unconnected refl only_bad_handshakes_take[OF bad]] by blast
    then show ?thesis by (simp add: in_room_def)
  qed
  have c: "received verify sch st tr x = [] \<and> emitted verify sch st tr x = []"
    using isolated_run[OF unconnected refl bad] by blast
  show ?thesis using a b c by blast
qed

lemmas example_defs =
  example_relay_def two_connections_def step_def connect_def auth_middleware_def
  initial_def example_db_def example_verify_def select_user_def alice_def bob_def
  falsy_def or_null_def answer_def single_def ok_def failed_def on_connection_def user_room_def
  first_message_def second_message_def

lemma example_relay_alice:
  "sockets example_relay 7 = Some \<lparr>userId = ''u1'', rooms = {''user:u1''}\<rparr>"
  by (simp add: example_defs)

lemma example_relay_bob:
  "sockets example_relay 8 = Some \<lparr>userId = ''u2'', rooms = {''user:u2''}\<rparr>"
  by (simp add: example_defs)

lemma example_relay_nobody: "sockets example_relay 9 = None"
  by (simp add: example_defs)

lemma example_relay_store: "store example_relay = example_db"
  by (simp add: example_defs)

lemma example_relay_reach:
  "example_relay = exec example_verify services_supabase_schema (initial example_db) two_connections"
  by (simp add: example_relay_def)

text \<open>
  An instance: Alice, connected on socket 7, sends "hello" to Bob, connected on socket 8
  and in no conversation room.
\<close>
theorem send_message_success_witness:
  "sockets example_relay 8 = Some \<lparr>userId = ''u2'', rooms = {''user:u2''}\<rparr>
   \<and> sockets example_relay 7 = Some \<lparr>userId = ''u1'', rooms = {''user:u1''}\<rparr>
   \<and> \<not> in_room example_relay 7 ''conversation:u1:u2''
   \<and> fst (step example_verify services_supabase_schema 8
             (Send_message \<lparr>receiverId = ''u1'', text_field = ''hello'', imageUrl = Some []\<rparr>
                None ''m3'' 30) example_relay) =
        [(To_room ''conversation:u1:u2'',
            New_message (Some \<lparr>sent_row = \<lparr>message_id = ''m3'', sender_id = ''u2'',
               receiver_id = ''u1'', message_text = ''hello'', image_url = None,
               created_at = 30, read_at = None\<rparr>,
               sent_sender = Some \<lparr>profile_id = ''u2'', profile_username = ''bob'',
                 profile_display_name = ''Bob'', profile_avatar_url = None\<rparr>\<rparr>)),
         (To_room ''user:u1'',
            Message_notification ''u2'' (Some \<lparr>sent_row = \<lparr>message_id = ''m3'',
               sender_id = ''u2'', receiver_id = ''u1'', message_text = ''hello'',
               image_url = None, created_at = 30, read_at = None\<rparr>,
               sent_sender = Some \<lparr>profile_id = ''u2'', profile_username = ''bob'',
                 profile_display_name = ''Bob'', profile_avatar_url = None\<rparr>\<rparr>))]
   \<and> delivered example_relay
         (fst (step example_verify services_supabase_schema 8
             (Send_message \<lparr>receiverId = ''u1'', text_field = ''hello'', imageUrl = Some []\<rparr>
                None ''m3'' 30) example_relay)) 7 =
        [Message_notification ''u2'' (Some \<lparr>sent_row = \<lparr>message_id = ''m3'',
               sender_id = ''u2'', receiver_id = ''u1'', message_text = ''hello'',
               image_url = None, created_at = 30, read_at = None\<rparr>,
               sent_sender = Some \<lparr>profile_id = ''u2'', profile_username = ''bob'',
                 profile_display_name = ''Bob'', profile_avatar_url = None\<rparr>\<rparr>)]"
proof -
  let ?c = "\<lparr>userId = ''u2'', rooms = {''user:u2''}\<rparr>"
  let ?d = "\<lparr>receiverId = ''u1'', text_field = ''hello'', imageUrl = Some []\<rparr>"
  let ?m = "\<lparr>message_id = ''m3'', sender_id = ''u2'', receiver_id = ''u1'',
             message_text = ''hello'', image_url = None, created_at = 30, read_at = None\<rparr>"
  let ?p = "\<lparr>sent_row = ?m,
             sent_sender = Some \<lparr>profile_id = ''u2'', profile_username = ''bob'',
               profile_display_name = ''Bob'', profile_avatar_url = None\<rparr>\<rparr>"
  let ?n = "\<lparr>new_sender_id = userId ?c, new_receiver_id = receiverId ?d,
             new_text = text_field ?d, new_image_url = or_null (imageUrl ?d)\<rparr>"
  let ?ev = "Send_message ?d None ''m3'' 30"
  have m: "stored_row ''m3'' 30 ?n = ?m" by (simp add: stored_row_def or_null_def)
  have ins: "insert_message services_supabase_schema None ''m3'' 30 (store example_relay) ?n
             = (Resolved (ok ?m), example_db\<lparr>messages := messages example_db @ [?m]\<rparr>)"
    unfolding example_relay_store insert_message_def Let_def m
    by (simp add: constraint_violated_def services_supabase_schema_def find_user_def
          example_db_def alice_def bob_def first_message_def second_message_def)
  have noerr: "error (ok ?m) = None" by (simp add: ok_def)
  have alice_out: "\<not> in_room example_relay 7 ''conversation:u1:u2''"
    by (simp add: in_room_def example_relay_alice)
  have bob_row: "find_user example_db ''u2'' = Some bob"
    by (simp add: find_user_def example_db_def alice_def bob_def)
  from send_message_success[OF example_relay_reach example_relay_bob ins noerr]
  obtain m' p' key' and u' :: user where
    m': "m' = \<lparr>message_id = ''m3'', sender_id = userId ?c, receiver_id = receiverId ?d,
                message_text = text_field ?d,
                image_url = (case imageUrl ?d of None \<Rightarrow> None
                             | Some url \<Rightarrow> if url = [] then None else Some url),
                created_at = 30, read_at = None\<rparr>"
    and u': "find_user (store example_relay) (userId ?c) = Some u'"
    and p': "p' = \<lparr>sent_row = m',
                  sent_sender = Some \<lparr>profile_id = user_id u', profile_username = username u',
                                       profile_display_name = display_name u',
                                       profile_avatar_url = avatar_url u'\<rparr>\<rparr>"
    and key': "key' = (if userId ?c \<le> receiverId ?d then userId ?c @ '':'' @ receiverId ?d
                   else receiverId ?d @ '':'' @ userId ?c)"
    and stp: "step example_verify services_supabase_schema 8 ?ev example_relay =
             ([(To_room (''conversation:'' @ key'), New_message (Some p')),
               (To_room (''user:'' @ receiverId ?d), Message_notification (userId ?c) (Some p'))],
              example_relay\<lparr>store := example_db\<lparr>messages := messages example_db @ [?m]\<rparr>\<rparr>)"
    and del: "\<forall>y cy. sockets example_relay y = Some cy \<and> userId cy = receiverId ?d \<longrightarrow>
               delivered example_relay (fst (step example_verify services_supabase_schema 8 ?ev example_relay)) y =
                 (if in_room example_relay y (''conversation:'' @ key')
                  then [New_message (Some p'), Message_notification (userId ?c) (Some p')]
                  else [Message_notification (userId ?c) (Some p')])"
    by blast
  have um: "u' = bob" using u' bob_row by (simp add: example_relay_store)
  have pm: "p' = ?p" unfolding p' m' um by (simp add: bob_def)
  have km: "key' = ''u1:u2''" unfolding key' by simp
  have e: "fst (step example_verify services_supabase_schema 8 ?ev example_relay) =
        [(To_room ''conversation:u1:u2'', New_message (Some ?p)),
         (To_room ''user:u1'', Message_notification ''u2'' (Some ?p))]"
    unfolding stp pm km by simp
  have d7: "delivered example_relay
         (fst (step example_verify services_supabase_schema 8 ?ev example_relay)) 7 =
        [Message_notification ''u2'' (Some ?p)]"
    using del[rule_format, of 7 "\<lparr>userId = ''u1'', rooms = {''user:u1''}\<rparr>"]
      example_relay_alice alice_out
    unfolding pm km by simp
  from example_relay_bob example_relay_alice alice_out e d7 show ?thesis
    by (intro conjI)
qed

text \<open>An instance: the same message when the store answers with an error.\<close>
theorem send_message_failure_witness:
  "sockets example_relay 7 = Some \<lparr>userId = ''u1'', rooms = {''user:u1''}\<rparr>
   \<and> fst (insert_message services_supabase_schema (Some Fault_error) ''m3'' 30 (store example_relay)
             \<lparr>new_sender_id = ''u1'', new_receiver_id = ''u2'', new_text = ''hello'',
              new_image_url = None\<rparr>) = Resolved (failed ''store unavailable'')
   \<and> step example_verify services_supabase_schema 7
         (Send_message \<lparr>receiverId = ''u2'', text_field = ''hello'', imageUrl = None\<rparr>
            (Some Fault_error) ''m3'' 30) example_relay =
        ([(To_socket 7, Message_error ''Failed to send message'')], example_relay)
   \<and> delivered example_relay
         (fst (step example_verify services_supabase_schema 7
            (Send_message \<lparr>receiverId = ''u2'', text_field = ''hello'', imageUrl = None\<rparr>
               (Some Fault_error) ''m3'' 30) example_relay)) 8 = []"
proof -
  let ?c = "\<lparr>userId = ''u1'', rooms = {''user:u1''}\<rparr>"
  let ?d = "\<lparr>receiverId = ''u2'', text_field = ''hello'', imageUrl = None\<rparr>"
  let ?n = "\<lparr>new_sender_id = userId ?c, new_receiver_id = receiverId ?d,
             new_text = text_field ?d, new_image_url = or_null (imageUrl ?d)\<rparr>"
  have ins: "insert_message services_supabase_schema (Some Fault_error) ''m3'' 30
               (store example_relay) ?n
             = (Resolved (failed ''store unavailable''), example_db)"
    by (simp add: insert_message_def answer_def example_relay_store)
  have fails: "Resolved (failed ''store unavailable'') = Throws
               \<or> (\<exists>rep. Resolved (failed ''store unavailable'') = Resolved rep \<and> error rep \<noteq> None)"
    by (simp add: failed_def)
  have ins': "fst (insert_message services_supabase_schema (Some Fault_error) ''m3'' 30 (store example_relay)
             \<lparr>new_sender_id = ''u1'', new_receiver_id = ''u2'', new_text = ''hello'',
              new_image_url = None\<rparr>) = Resolved (failed ''store unavailable'')"
    by (simp add: insert_message_def answer_def)
  note r = send_message_failure[OF example_relay_alice ins fails, of example_verify]
  from r have stp: "step example_verify services_supabase_schema 7
         (Send_message ?d (Some Fault_error) ''m3'' 30) example_relay =
        ([(To_socket 7, Message_error ''Failed to send message'')], example_relay)"
    by (rule conjunct1)
  from r have "delivered example_relay
         (fst (step example_verify services_supabase_schema 7
            (Send_message ?d (Some Fault_error) ''m3'' 30) example_relay)) 8 =
         (if (8::nat) = 7 then [Message_error ''Failed to send message''] else [])"
    by blast
  then have d8: "delivered example_relay
         (fst (step example_verify services_supabase_schema 7
            (Send_message ?d (Some Fault_error) ''m3'' 30) example_relay)) 8 = []"
    by simp
  show ?thesis using example_relay_alice ins' stp d8 by blast
qed

text \<open>An instance: Alice types to Bob; Bob's connection gets both events, Alice's none.\<close>
theorem typing_start_stop_witness:
  "sockets example_relay 7 = Some \<lparr>userId = ''u1'', rooms = {''user:u1''}\<rparr>
   \<and> ''u1'' \<noteq> ''u2''
   \<and> emitted example_verify services_supabase_schema example_relay
        [(7, Typing_start ''u2''), (7, Typing_stop ''u2'')] 7 =
        [(To_room_except ''user:u2'' 7, User_typing ''u1'' True),
         (To_room_except ''user:u2'' 7, User_typing ''u1'' False)]
   \<and> received example_verify services_supabase_schema example_relay
        [(7, Typing_start ''u2''), (7, Typing_stop ''u2'')] 8 =
        [User_typing ''u1'' True, User_typing ''u1'' False]
   \<and> received example_verify services_supabase_schema example_relay
        [(7, Typing_start ''u2''), (7, Typing_stop ''u2'')] 7 = []"
proof -
  have ne: "userId \<lparr>userId = ''u1'', rooms = {''user:u1''}\<rparr> \<noteq> ''u2''" by simp
  note r = typing_start_stop[OF example_relay_reach example_relay_alice ne]
  from r have em: "emitted example_verify services_supabase_schema example_relay
        [(7, Typing_start ''u2''), (7, Typing_stop ''u2'')] 7 =
        [(To_room_except ''user:u2'' 7, User_typing ''u1'' True),
         (To_room_except ''user:u2'' 7, User_typing ''u1'' False)]"
    by (simp add: user_room_def del: emitted.simps received.simps)
  from r have r8: "received example_verify services_supabase_schema example_relay
        [(7, Typing_start ''u2''), (7, Typing_stop ''u2'')] 8 =
        [User_typing ''u1'' True, User_typing ''u1'' False]"
    by (simp add: example_relay_bob del: emitted.simps received.simps)
  from r have r7: "received example_verify services_supabase_schema example_relay
        [(7, Typing_start ''u2''), (7, Typing_stop ''u2'')] 7 = []"
    by (simp add: example_relay_alice del: emitted.simps received.simps)
  show ?thesis using example_relay_alice em r8 r7 by (simp del: emitted.simps received.simps)
qed

text \<open>
  An instance: socket 9 tries to connect without a token, with a forged token and with a
  token of a user that does not exist, and sends events all the same.
\<close>
theorem rejected_connection_isolated_witness:
  "sockets example_relay 9 = None
   \<and> only_bad_handshakes example_verify (store example_relay) 9
        [(9, Handshake None None), (9, Handshake (Some ''forged'') None),
         (9, Handshake (Some ''t3'') None), (9, Join_conversation ''u1''),
         (7, Send_message \<lparr>receiverId = ''u2'', text_field = ''hello'', imageUrl = None\<rparr>
               None ''m3'' 30),
         (9, Typing_start ''u1'')]
   \<and> connect example_verify 9 None None example_relay = Inl Authentication_error
   \<and> connect example_verify 9 (Some ''forged'') None example_relay = Inl Authentication_error
   \<and> connect example_verify 9 (Some ''t3'') None example_relay = Inl Authentication_error
   \<and> received example_verify services_supabase_schema example_relay
        [(9, Handshake None None), (9, Handshake (Some ''forged'') None),
         (9, Handshake (Some ''t3'') None), (9, Join_conversation ''u1''),
         (7, Send_message \<lparr>receiverId = ''u2'', text_field = ''hello'', imageUrl = None\<rparr>
               None ''m3'' 30),
         (9, Typing_start ''u1'')] 9 = []
   \<and> emitted example_verify services_supabase_schema example_relay
        [(9, Handshake None None), (9, Handshake (Some ''forged'') None),
         (9, Handshake (Some ''t3'') None), (9, Join_conversation ''u1''),
         (7, Send_message \<lparr>receiverId = ''u2'', text_field = ''hello'', imageUrl = None\<rparr>
               None ''m3'' 30),
         (9, Typing_start ''u1'')] 9 = []"
proof -
  let ?tr = "[(9, Handshake None None), (9, Handshake (Some ''forged'') None),
         (9, Handshake (Some ''t3'') None), (9, Join_conversation ''u1''),
         (7, Send_message \<lparr>receiverId = ''u2'', text_field = ''hello'', imageUrl = None\<rparr>
               None ''m3'' 30),
         (9, Typing_start ''u1'')]"
  have b1: "bad_credential example_verify (store example_relay) None"
    by (simp add: bad_credential_def falsy_def or_null_def)
  have b2: "bad_credential example_verify (store example_relay) (Some ''forged'')"
    by (simp add: bad_credential_def example_verify_def)
  have b3: "bad_credential example_verify (store example_relay) (Some ''t3'')"
    by (simp add: bad_credential_def example_verify_def example_relay_store find_user_def
          example_db_def alice_def bob_def)
  have bad: "only_bad_handshakes example_verify (store example_relay) 9 ?tr"
    using b1 b2 b3 by (simp add: only_bad_handshakes_def)
  note r = rejected_connection_isolated[OF example_relay_nobody bad, of services_supabase_schema]
  from r b1 have c1: "connect example_verify 9 None None example_relay = Inl Authentication_error"
    by blast
  from r b2 have c2: "connect example_verify 9 (Some ''forged'') None example_relay = Inl Authentication_error"
    by blast
  from r b3 have c3: "connect example_verify 9 (Some ''t3'') None example_relay = Inl Authentication_error"
    by blast
  from r have re: "received example_verify services_supabase_schema example_relay ?tr 9 = []"
    by blast
  from r have em: "emitted example_verify services_supabase_schema example_relay ?tr 9 = []"
    by blast
  show ?thesis using example_relay_nobody bad c1 c2 c3 re em by blast
qed

subsection \<open>The message controller\<close>

lemma primary_key_inj: "primary_key db \<Longrightarrow> inj_on message_id (set (messages db))"
  by (simp add: primary_key_def distinct_map)

lemma filter_is_element:
  "distinct xs \<Longrightarrow> m \<in> set xs \<Longrightarrow> filter (\<lambda>x. x = m) xs = [m]"
  by (induction xs) (auto simp: filter_empty_conv)

lemma filter_by_key:
  assumes "distinct (map f xs)" "m \<in> set xs"
  shows "filter (\<lambda>x. f x = f m \<and> P x) xs = (if P m then [m] else [])"
proof -
  from assms(1) have inj: "inj_on f (set xs)" and d: "distinct xs"
    by (simp_all add: distinct_map)
  have "filter (\<lambda>x. f x = f m \<and> P x) xs = filter (\<lambda>x. x = m \<and> P m) xs"
    using inj assms(2) by (intro filter_cong) (auto dest: inj_onD)
  also have "\<dots> = (if P m then [m] else [])"
    using d assms(2) by (simp add: filter_is_element)
  finally show ?thesis .
qed

lemma filter_other_keys:
  assumes "distinct (map f xs)" "m \<in> set xs"
  shows "filter (\<lambda>x. f x \<noteq> f m) xs = removeAll m xs"
proof -
  from assms(1) have inj: "inj_on f (set xs)" by (simp add: distinct_map)
  have "filter (\<lambda>x. f x \<noteq> f m) xs = filter (\<lambda>x. m \<noteq> x) xs"
    using inj assms(2) by (intro filter_cong) (auto dest: inj_onD)
  then show ?thesis by (simp add: removeAll_filter_not_eq)
qed

lemma select_own_message_found:
  assumes "primary_key db" "m \<in> set (messages db)"
  shows "select_own_message None db (message_id m) u =
           Resolved (if sender_id m = u then ok m else failed ''PGRST116'')"
proof -
  have "filter (\<lambda>x. message_id x = message_id m \<and> sender_id x = u) (messages db)
        = (if sender_id m = u then [m] else [])"
    using assms filter_by_key[of message_id "messages db" m "\<lambda>x. sender_id x = u"]
    by (simp add: primary_key_def)
  then show ?thesis by (simp add: select_own_message_def answer_def single_def)
qed

lemma select_own_message_fault:
  "select_own_message (Some ft) db mid u = Throws
   \<or> (\<exists>r. select_own_message (Some ft) db mid u = Resolved r \<and> error r \<noteq> None)"
  by (cases ft) (simp_all add: select_own_message_def answer_def failed_def)

text \<open>
  C7 (amended). With the store answering both queries, a delete request for a stored
  message removes exactly that message when the requester is its sender and answers
  200; a request by any other user answers 404 "Message not found or unauthorized", the
  answer for a message that does not exist, and leaves the store unchanged. Whatever
  the store faults, a request by another user never changes the store.
\<close>
theorem deleteMessage_sender_only:
  assumes pk: "primary_key db" and stored: "m \<in> set (messages db)" and auth: "u \<noteq> []"
  shows "deleteMessage (Some u) (message_id m) None None db =
           (if u = sender_id m
            then ((200, Success_body), db\<lparr>messages := removeAll m (messages db)\<rparr>)
            else ((404, Error_body ''Message not found or unauthorized''), db))
       \<and> (u \<noteq> sender_id m \<longrightarrow>
            snd (deleteMessage (Some u) (message_id m) f1 f2 db) = db
            \<and> \<not> spec_authorization_error (fst (deleteMessage (Some u) (message_id m) f1 f2 db)))
       \<and> (ghost \<notin> message_id ` set (messages db) \<longrightarrow>
            deleteMessage (Some u) ghost None None db =
              ((404, Error_body ''Message not found or unauthorized''), db))"
proof -
  have nf: "\<not> falsy (Some u)" using auth by (simp add: falsy_def or_null_def)
  have a: "deleteMessage (Some u) (message_id m) None None db =
           (if u = sender_id m
            then ((200, Success_body), db\<lparr>messages := removeAll m (messages db)\<rparr>)
            else ((404, Error_body ''Message not found or unauthorized''), db))"
  proof (cases "u = sender_id m")
    case True
    have "filter (\<lambda>x. message_id x \<noteq> message_id m) (messages db) = removeAll m (messages db)"
      using pk stored by (simp add: primary_key_def filter_other_keys)
    then show ?thesis using True nf select_own_message_found[OF pk stored, of u]
      by (simp add: deleteMessage_def delete_message_def ok_def)
  next
    case False
    then show ?thesis using nf select_own_message_found[OF pk stored, of u]
      by (auto simp: deleteMessage_def failed_def)
  qed
  have b: "snd (deleteMessage (Some u) (message_id m) f1 f2 db) = db
            \<and> \<not> spec_authorization_error (fst (deleteMessage (Some u) (message_id m) f1 f2 db))"
    if other: "u \<noteq> sender_id m"
  proof (cases f1)
    case None
    then show ?thesis using other nf select_own_message_found[OF pk stored, of u]
      by (auto simp: deleteMessage_def failed_def spec_authorization_error_def)
  next
    case (Some ft)
    then show ?thesis using nf select_own_message_fault[of ft db "message_id m" u]
      by (auto simp: deleteMessage_def spec_authorization_error_def)
  qed
  have c: "deleteMessage (Some u) ghost None None db =
           ((404, Error_body ''Message not found or unauthorized''), db)"
    if "ghost \<notin> message_id ` set (messages db)"
  proof -
    have "filter (\<lambda>x. message_id x = ghost \<and> sender_id x = u) (messages db) = []"
      using that by (auto simp: filter_empty_conv)
    then show ?thesis using nf
      by (simp add: deleteMessage_def select_own_message_def answer_def single_def failed_def)
  qed
  show ?thesis using a b c by simp
qed

lemma listed_row_of: "listed_row (listed_of db m) = m"
  by (simp add: listed_of_def)

lemma select_conversation_rows:
  assumes "select_conversation f db u other from to = Resolved r" "error r = None"
  shows "\<exists>rows. data r = Some (map (listed_of db) rows) \<and> set rows \<subseteq> set (messages db)"
proof -
  let ?rows = "take (nat (to - from + 1)) (drop (nat from)
                 (sort_key (\<lambda>m. - created_at m) (filter (between u other) (messages db))))"
  have sub: "set ?rows \<subseteq> set (messages db)"
  proof
    fix m assume "m \<in> set ?rows"
    then have "m \<in> set (drop (nat from)
                 (sort_key (\<lambda>m. - created_at m) (filter (between u other) (messages db))))"
      by (rule in_set_takeD)
    then have "m \<in> set (sort_key (\<lambda>m. - created_at m) (filter (between u other) (messages db)))"
      by (rule in_set_dropD)
    then show "m \<in> set (messages db)" by simp
  qed
  from assms have "r = ok (map (listed_of db) ?rows)"
    by (auto simp: select_conversation_def answer_def failed_def
             split: option.splits fault.splits if_splits)
  then show ?thesis using sub by (auto simp: ok_def)
qed


lemma unread_views:
  "filter (\<lambda>msg. receiver_id (listed_row msg) = u \<and> read_at (listed_row msg) = None) (map (listed_of db) rows)
   = map (listed_of db) (filter (unread_for u) rows)"
  by (induction rows) (simp_all add: listed_row_of unread_for_def)

lemma stamp_by_id:
  assumes pk: "primary_key db" and sub: "set rows \<subseteq> set (messages db)"
  shows "map (\<lambda>m. if message_id m \<in> set (map message_id (filter P rows)) then g m else m) (messages db)
       = map (\<lambda>m. if m \<in> set rows \<and> P m then g m else m) (messages db)"
proof (rule map_cong[OF refl])
  fix m assume m: "m \<in> set (messages db)"
  have inj: "inj_on message_id (set (messages db))" using pk by (rule primary_key_inj)
  have "message_id m \<in> set (map message_id (filter P rows)) \<longleftrightarrow> m \<in> set rows \<and> P m"
  proof
    assume "message_id m \<in> set (map message_id (filter P rows))"
    then obtain q where q: "q \<in> set rows" "P q" "message_id q = message_id m" by auto
    then have "q = m" using inj m sub by (auto dest: inj_onD)
    then show "m \<in> set rows \<and> P m" using q by simp
  next
    assume "m \<in> set rows \<and> P m"
    then show "message_id m \<in> set (map message_id (filter P rows))" by auto
  qed
  then show "(if message_id m \<in> set (map message_id (filter P rows)) then g m else m)
           = (if m \<in> set rows \<and> P m then g m else m)" by simp
qed

lemma getMessages_fetched:
  assumes nf: "\<not> falsy req_user_id"
      and sel: "select_conversation f1 db (the req_user_id) other ((page - 1) * limit)
                  ((page - 1) * limit + limit - 1) = Resolved r"
      and noerr: "error r = None"
      and rows: "data r = Some (map (listed_of db) rows)"
  shows "getMessages req_user_id other page limit f1 f2 now db =
          (if filter (unread_for (the req_user_id)) rows \<noteq> [] \<and> f2 = Some Fault_throw
           then ((500, Error_body ''Internal server error''), db)
           else ((200, Messages_body (rev (map (listed_of db) rows)) (int (length rows) = limit)),
                 if filter (unread_for (the req_user_id)) rows \<noteq> [] \<and> f2 = None
                 then db\<lparr>messages :=
                        map (\<lambda>m. if message_id m \<in> set (map message_id (filter (unread_for (the req_user_id)) rows))
                                  then m\<lparr>read_at := Some now\<rparr> else m) (messages db)\<rparr>
                 else db))"
proof (cases f2)
  case None
  then show ?thesis using nf sel noerr rows
    by (simp add: getMessages_def Let_def unread_views listed_row_of update_read_at_def ok_def)
next
  case (Some ft)
  then show ?thesis using nf sel noerr rows
    by (cases ft) (simp_all add: getMessages_def Let_def unread_views listed_row_of update_read_at_def ok_def answer_def)
qed

text \<open>
  C9 (amended). \<^verbatim>\<open>getMessages\<close> changes the store in one way only: when the store
  carries the update out, the messages of the returned page whose receiver is the caller
  and whose read time is unset get the read time \<open>now\<close>. The handler does not look at
  the result of the update: when it fails, nothing is stamped. In every case no other
  field of these rows, no other row, and no user changes, and a response other than 200
  changes nothing.
\<close>
theorem getMessages_frame:
  assumes pk: "primary_key db"
  shows "users (snd (getMessages req_user_id other page limit f1 f2 now db)) = users db
       \<and> messages (snd (getMessages req_user_id other page limit f1 f2 now db)) =
           map (\<lambda>m. if f2 = None
                       \<and> m \<in> returned_page (fst (getMessages req_user_id other page limit f1 f2 now db))
                       \<and> Some (receiver_id m) = req_user_id \<and> read_at m = None
                     then m\<lparr>read_at := Some now\<rparr> else m)
             (messages db)
       \<and> (fst (fst (getMessages req_user_id other page limit f1 f2 now db)) \<noteq> 200 \<longrightarrow>
            snd (getMessages req_user_id other page limit f1 f2 now db) = db)"
proof (cases "falsy req_user_id")
  case True
  then show ?thesis by (simp add: getMessages_def returned_page_def)
next
  case nf: False
  then obtain u where u: "req_user_id = Some u"
    by (cases req_user_id) (simp_all add: falsy_def or_null_def)
  let ?sel = "select_conversation f1 db (the req_user_id) other ((page - 1) * limit)
                  ((page - 1) * limit + limit - 1)"
  show ?thesis
  proof (cases ?sel)
    case Throws
    then show ?thesis using nf by (simp add: getMessages_def Let_def returned_page_def)
  next
    case (Resolved r)
    show ?thesis
    proof (cases "error r = None")
      case False
      then show ?thesis using nf Resolved
        by (simp add: getMessages_def Let_def returned_page_def)
    next
      case True
      from select_conversation_rows[OF Resolved True] obtain rows
        where rows: "data r = Some (map (listed_of db) rows)" and sub: "set rows \<subseteq> set (messages db)"
        by blast
      note g = getMessages_fetched[OF nf Resolved True rows, where ?f2.0 = f2 and now = now]
      let ?G = "getMessages req_user_id other page limit f1 f2 now db"
      let ?stamp = "\<lambda>m. m\<lparr>read_at := Some now\<rparr>"
      show ?thesis
      proof (cases "filter (unread_for u) rows \<noteq> [] \<and> f2 = Some Fault_throw")
        case True
        then show ?thesis using g u by (simp add: returned_page_def)
      next
        case nothrow: False
        have page: "returned_page (fst ?G) = set rows"
          using g nothrow u by (simp add: returned_page_def image_image listed_row_of)
        have cond: "(Some (receiver_id m) = req_user_id \<and> read_at m = None) = unread_for u m" for m
          using u by (auto simp: unread_for_def)
        have users: "users (snd ?G) = users db" using g u by simp
        have status: "fst (fst ?G) = 200" using g nothrow u by simp
        have msgs: "messages (snd ?G) =
                  map (\<lambda>m. if f2 = None \<and> m \<in> set rows \<and> unread_for u m then ?stamp m else m)
                    (messages db)"
        proof (cases "filter (unread_for u) rows \<noteq> [] \<and> f2 = None")
          case True
          have "messages (snd ?G) =
                  map (\<lambda>m. if message_id m \<in> set (map message_id (filter (unread_for u) rows))
                            then ?stamp m else m) (messages db)"
            using g True u by simp
          also have "\<dots> = map (\<lambda>m. if m \<in> set rows \<and> unread_for u m then ?stamp m else m)
                    (messages db)"
            by (rule stamp_by_id[OF pk sub])
          finally show ?thesis using True by simp
        next
          case False
          have same: "messages (snd ?G) = messages db"
            using g nothrow False u by auto
          have "map (\<lambda>m. if f2 = None \<and> m \<in> set rows \<and> unread_for u m
                          then ?stamp m else m) (messages db) = messages db"
            using False by (intro map_idI) (auto simp: filter_empty_conv)
          then show ?thesis using same by simp
        qed
        have "messages (snd ?G) =
           map (\<lambda>m. if f2 = None \<and> m \<in> returned_page (fst ?G)
                       \<and> Some (receiver_id m) = req_user_id \<and> read_at m = None
                     then ?stamp m else m) (messages db)"
          unfolding page cond by (rule msgs)
        then show ?thesis using users status by simp
      qed
    qed
  qed
qed

lemma example_primary_key: "primary_key example_db"
  by (simp add: primary_key_def example_db_def first_message_def second_message_def)

lemma example_page:
  "fst (getMessages (Some ''u1'') ''u2'' 1 50 None None 99 example_db) =
     (200, Messages_body [listed_of example_db first_message, listed_of example_db second_message] False)"
  by (simp add: getMessages_def select_conversation_def answer_def ok_def falsy_def or_null_def
        between_def example_db_def first_message_def second_message_def update_read_at_def
        Let_def listed_row_of)

text \<open>
  An instance: Alice fetches her conversation with Bob; only Bob's message to her is
  stamped.
\<close>
theorem getMessages_frame_witness:
  "primary_key example_db
   \<and> messages (snd (getMessages (Some ''u1'') ''u2'' 1 50 None None 99 example_db)) =
       [first_message, second_message\<lparr>read_at := Some 99\<rparr>]
   \<and> users (snd (getMessages (Some ''u1'') ''u2'' 1 50 None None 99 example_db)) = [alice, bob]"
proof -
  note r = getMessages_frame[OF example_primary_key, of "Some ''u1''" "''u2''" 1 50 None None 99]
  have page: "returned_page (fst (getMessages (Some ''u1'') ''u2'' 1 50 None None 99 example_db))
              = {first_message, second_message}"
    unfolding example_page by (simp add: returned_page_def listed_row_of)
  from r have "messages (snd (getMessages (Some ''u1'') ''u2'' 1 50 None None 99 example_db)) =
           map (\<lambda>m. if None = (None :: fault option)
                       \<and> m \<in> returned_page (fst (getMessages (Some ''u1'') ''u2'' 1 50 None None 99 example_db))
                       \<and> Some (receiver_id m) = Some ''u1'' \<and> read_at m = None
                     then m\<lparr>read_at := Some 99\<rparr> else m)
             (messages example_db)"
    by blast
  then have m: "messages (snd (getMessages (Some ''u1'') ''u2'' 1 50 None None 99 example_db)) =
       [first_message, second_message\<lparr>read_at := Some 99\<rparr>]"
    unfolding page
    by (simp add: example_db_def first_message_def second_message_def)
  from r have u: "users (snd (getMessages (Some ''u1'') ''u2'' 1 50 None None 99 example_db)) = [alice, bob]"
    by (simp add: example_db_def)
  show ?thesis using example_primary_key m u by blast
qed

text \<open>
  C9 as stated fails: the update resolves with an error, which the handler ignores. Alice
  is answered 200 with the page holding Bob's unread message to her, and the message
  stays unread in the store.
\<close>
theorem getMessages_update_error_not_stamped:
  "getMessages (Some ''u1'') ''u2'' 1 50 None (Some Fault_error) 99 example_db =
     ((200, Messages_body [listed_of example_db first_message,
                           listed_of example_db second_message] False),
      example_db)
   \<and> second_message
        \<in> returned_page (fst (getMessages (Some ''u1'') ''u2'' 1 50 None (Some Fault_error) 99
                                example_db))
   \<and> receiver_id second_message = ''u1'' \<and> read_at second_message = None
   \<and> messages (snd (getMessages (Some ''u1'') ''u2'' 1 50 None (Some Fault_error) 99 example_db))
       = [first_message, second_message]"
proof -
  have run: "getMessages (Some ''u1'') ''u2'' 1 50 None (Some Fault_error) 99 example_db =
     ((200, Messages_body [listed_of example_db first_message,
                           listed_of example_db second_message] False),
      example_db)"
    by (simp add: getMessages_def select_conversation_def answer_def ok_def failed_def
          falsy_def or_null_def between_def example_db_def first_message_def
          second_message_def update_read_at_def Let_def listed_row_of)
  show ?thesis
    unfolding run
    by (simp add: returned_page_def listed_row_of)
       (simp add: example_db_def second_message_def)
qed

text \<open>
  C7 as stated fails: Bob asks to delete Alice's message; the answer is 404, which is
  not an authorization error.
\<close>
theorem deleteMessage_not_authorization_error:
  "\<not> spec_authorization_error (fst (deleteMessage (Some ''u2'') ''m1'' None None example_db))
   \<and> deleteMessage (Some ''u2'') ''m1'' None None example_db =
       ((404, Error_body ''Message not found or unauthorized''), example_db)
   \<and> first_message \<in> set (messages example_db)
   \<and> message_id first_message = ''m1'' \<and> sender_id first_message = ''u1''"
  by (simp add: deleteMessage_def select_own_message_def answer_def single_def failed_def
        falsy_def or_null_def spec_authorization_error_def example_db_def
        first_message_def second_message_def)

text \<open>An instance: Alice deletes her message; Bob's request for it answers 404.\<close>
theorem deleteMessage_sender_only_witness:
  "primary_key example_db \<and> first_message \<in> set (messages example_db) \<and> ''u1'' \<noteq> []
   \<and> deleteMessage (Some ''u1'') ''m1'' None None example_db =
        ((200, Success_body), example_db\<lparr>messages := [second_message]\<rparr>)
   \<and> deleteMessage (Some ''u2'') ''m1'' None None example_db =
        ((404, Error_body ''Message not found or unauthorized''), example_db)"
proof -
  have stored: "first_message \<in> set (messages example_db)" by (simp add: example_db_def)
  have id: "message_id first_message = ''m1''" and snd: "sender_id first_message = ''u1''"
    by (simp_all add: first_message_def)
  have rest: "removeAll first_message (messages example_db) = [second_message]"
    by (simp add: example_db_def first_message_def second_message_def)
  have a1: "''u1'' \<noteq> []" and a2: "''u2'' \<noteq> []" by simp_all
  from deleteMessage_sender_only[OF example_primary_key stored a1]
  have own: "deleteMessage (Some ''u1'') ''m1'' None None example_db =
        ((200, Success_body), example_db\<lparr>messages := [second_message]\<rparr>)"
    unfolding id snd rest by simp
  from deleteMessage_sender_only[OF example_primary_key stored a2]
  have other: "deleteMessage (Some ''u2'') ''m1'' None None example_db =
        ((404, Error_body ''Message not found or unauthorized''), example_db)"
    unfolding id snd by simp
  show ?thesis using example_primary_key stored own other by simp
qed

lemma sender_receiver_check_enforced:
  assumes "check_sender_receiver sch"
      and "insert_message sch f fresh_id now db n = (Resolved rep, db')" and "error rep = None"
  shows "new_sender_id n \<noteq> new_receiver_id n"
  using insert_message_success(3)[OF assms(2,3)] assms(1)
  by (auto simp: constraint_violated_def)

text \<open>
  C5. Neither send path compares the sender with the receiver. With the table as
  \<^verbatim>\<open>services/supabase.ts\<close> creates it, a user's message to themselves is stored, through
  the HTTP path (status 201) and through the relay.
\<close>
theorem self_message_persisted:
  "sendMessage services_supabase_schema (Some ''u1'') (Some ''u1'') (Some ''note to self'') None
      None None ''m3'' 30 example_db =
     ((201, Message_body (Some \<lparr>row = \<lparr>message_id = ''m3'', sender_id = ''u1'',
          receiver_id = ''u1'', message_text = ''note to self'', image_url = None,
          created_at = 30, read_at = None\<rparr>, sender = Some alice, receiver = Some alice\<rparr>)),
      example_db\<lparr>messages := [first_message, second_message,
          \<lparr>message_id = ''m3'', sender_id = ''u1'', receiver_id = ''u1'',
           message_text = ''note to self'', image_url = None, created_at = 30,
           read_at = None\<rparr>]\<rparr>)
   \<and> messages (store (snd (step example_verify services_supabase_schema 7
        (Send_message \<lparr>receiverId = ''u1'', text_field = ''note to self'', imageUrl = None\<rparr>
           None ''m3'' 30) example_relay))) =
       [first_message, second_message,
        \<lparr>message_id = ''m3'', sender_id = ''u1'', receiver_id = ''u1'',
         message_text = ''note to self'', image_url = None, created_at = 30, read_at = None\<rparr>]"
proof -
  have ins: "insert_message services_supabase_schema None ''m3'' 30 example_db
               \<lparr>new_sender_id = ''u1'', new_receiver_id = ''u1'', new_text = ''note to self'',
                new_image_url = None\<rparr> =
             (Resolved (ok \<lparr>message_id = ''m3'', sender_id = ''u1'',
                  receiver_id = ''u1'', message_text = ''note to self'', image_url = None,
                  created_at = 30, read_at = None\<rparr>),
              example_db\<lparr>messages := [first_message, second_message,
                  \<lparr>message_id = ''m3'', sender_id = ''u1'', receiver_id = ''u1'',
                   message_text = ''note to self'', image_url = None, created_at = 30,
                   read_at = None\<rparr>]\<rparr>)"
    by (simp add: insert_message_def Let_def constraint_violated_def services_supabase_schema_def
          stored_row_def find_user_def example_db_def alice_def bob_def
          first_message_def second_message_def)
  have view: "view_of example_db \<lparr>message_id = ''m3'', sender_id = ''u1'',
                  receiver_id = ''u1'', message_text = ''note to self'', image_url = None,
                  created_at = 30, read_at = None\<rparr> =
              \<lparr>row = \<lparr>message_id = ''m3'', sender_id = ''u1'',
                  receiver_id = ''u1'', message_text = ''note to self'', image_url = None,
                  created_at = 30, read_at = None\<rparr>, sender = Some alice, receiver = Some alice\<rparr>"
    by (simp add: view_of_def find_user_def example_db_def alice_def bob_def)
  have sel: "select_user None example_db ''u1'' = Resolved (ok alice)"
    by (simp add: select_user_def answer_def single_def example_db_def alice_def bob_def)
  have rest: "sendMessage services_supabase_schema (Some ''u1'') (Some ''u1'') (Some ''note to self'') None
      None None ''m3'' 30 example_db =
     ((201, Message_body (Some \<lparr>row = \<lparr>message_id = ''m3'', sender_id = ''u1'',
          receiver_id = ''u1'', message_text = ''note to self'', image_url = None,
          created_at = 30, read_at = None\<rparr>, sender = Some alice, receiver = Some alice\<rparr>)),
      example_db\<lparr>messages := [first_message, second_message,
          \<lparr>message_id = ''m3'', sender_id = ''u1'', receiver_id = ''u1'',
           message_text = ''note to self'', image_url = None, created_at = 30,
           read_at = None\<rparr>]\<rparr>)"
    by (simp add: sendMessage_def falsy_def or_null_def sel ins ok_def view)
  have relay: "messages (store (snd (step example_verify services_supabase_schema 7
        (Send_message \<lparr>receiverId = ''u1'', text_field = ''note to self'', imageUrl = None\<rparr>
           None ''m3'' 30) example_relay))) =
       [first_message, second_message,
        \<lparr>message_id = ''m3'', sender_id = ''u1'', receiver_id = ''u1'',
         message_text = ''note to self'', image_url = None, created_at = 30, read_at = None\<rparr>]"
    by (simp add: step_def example_relay_alice example_relay_store send_message_def or_null_def
          ins ok_def Let_def)
  show ?thesis using rest relay by (rule conjI)
qed

text \<open>The stored pairs of sender and receiver after Alice's message to herself.\<close>
theorem self_message_persisted_witness:
  "select_user None example_db ''u1'' = Resolved (ok alice)
   \<and> fst (fst (sendMessage services_supabase_schema (Some ''u1'') (Some ''u1'')
               (Some ''note to self'') None None None ''m3'' 30 example_db)) = 201
   \<and> map (\<lambda>m. (sender_id m, receiver_id m))
         (messages (snd (sendMessage services_supabase_schema (Some ''u1'') (Some ''u1'')
               (Some ''note to self'') None None None ''m3'' 30 example_db))) =
       [(''u1'', ''u2''), (''u2'', ''u1''), (''u1'', ''u1'')]
   \<and> map (\<lambda>m. (sender_id m, receiver_id m))
         (messages (store (snd (step example_verify services_supabase_schema 7
            (Send_message \<lparr>receiverId = ''u1'', text_field = ''note to self'', imageUrl = None\<rparr>
               None ''m3'' 30) example_relay)))) =
       [(''u1'', ''u2''), (''u2'', ''u1''), (''u1'', ''u1'')]"
proof -
  have sel: "select_user None example_db ''u1'' = Resolved (ok alice)"
    by (simp add: select_user_def answer_def single_def example_db_def alice_def bob_def)
  note r = self_message_persisted
  from r have http: "sendMessage services_supabase_schema (Some ''u1'') (Some ''u1'')
               (Some ''note to self'') None None None ''m3'' 30 example_db =
     ((201, Message_body (Some \<lparr>row = \<lparr>message_id = ''m3'', sender_id = ''u1'',
          receiver_id = ''u1'', message_text = ''note to self'', image_url = None,
          created_at = 30, read_at = None\<rparr>, sender = Some alice, receiver = Some alice\<rparr>)),
      example_db\<lparr>messages := [first_message, second_message,
          \<lparr>message_id = ''m3'', sender_id = ''u1'', receiver_id = ''u1'',
           message_text = ''note to self'', image_url = None, created_at = 30,
           read_at = None\<rparr>]\<rparr>)"
    by (rule conjunct1)
  from r have relay: "messages (store (snd (step example_verify services_supabase_schema 7
        (Send_message \<lparr>receiverId = ''u1'', text_field = ''note to self'', imageUrl = None\<rparr>
           None ''m3'' 30) example_relay))) =
       [first_message, second_message,
        \<lparr>message_id = ''m3'', sender_id = ''u1'', receiver_id = ''u1'',
         message_text = ''note to self'', image_url = None, created_at = 30, read_at = None\<rparr>]"
    by (rule conjunct2)
  show ?thesis
    unfolding http relay
    by (simp add: sel first_message_def second_message_def)
qed

end
